theory Spec2Isabelle
  imports Complex_Main "HOL-Library.Signed_Division"
begin

section \<open>Errors and the JavaScript primitives the engine relies on\<close>

text \<open>
  Every \<^verbatim>\<open>throw\<close> of the TypeScript sources, and every exception a library call can
  raise, is a value of \<open>error\<close>; a computation that may throw returns \<open>error + 'a\<close>
  with \<open>Inl\<close> for the exception.
\<close>

datatype error =
    SyntaxError
  | TypeError
  | ConfigError
  | RpcError
  | PoolDataError
  | InvariantError
  | RangeError
  | EncodingError

text \<open>
  \<^verbatim>\<open>BigInt(string)\<close>: the string is trimmed; the empty string is \<open>0n\<close>; a literal is
  either an optionally signed run of decimal digits or an unsigned \<^verbatim>\<open>0x\<close>, \<^verbatim>\<open>0o\<close>,
  \<^verbatim>\<open>0b\<close> literal; anything else throws a SyntaxError.
\<close>

definition isWhiteSpace :: "char \<Rightarrow> bool" where
  "isWhiteSpace c = ((of_char c :: nat) \<in> {9, 10, 11, 12, 13, 32, 160})"

definition trim :: "string \<Rightarrow> string" where
  "trim s = rev (dropWhile isWhiteSpace (rev (dropWhile isWhiteSpace s)))"

definition digitValue :: "char \<Rightarrow> nat option" where
  "digitValue c =
     (let n = (of_char c :: nat) in
      if 48 \<le> n \<and> n \<le> 57 then Some (n - 48)
      else if 97 \<le> n \<and> n \<le> 122 then Some (n - 87)
      else if 65 \<le> n \<and> n \<le> 90 then Some (n - 55)
      else None)"

fun digitsValue :: "nat \<Rightarrow> string \<Rightarrow> nat \<Rightarrow> nat option" where
  "digitsValue b [] acc = Some acc"
| "digitsValue b (c # cs) acc =
     (case digitValue c of
        None \<Rightarrow> None
      | Some d \<Rightarrow> if d < b then digitsValue b cs (acc * b + d) else None)"

definition parseDigits :: "nat \<Rightarrow> string \<Rightarrow> nat option" where
  "parseDigits b s = (if s = [] then None else digitsValue b s 0)"

definition BigInt :: "string \<Rightarrow> error + int" where
  "BigInt s =
     (let t = trim s;
          lit = (\<lambda>sgn r. case r of None \<Rightarrow> Inl SyntaxError | Some n \<Rightarrow> Inr (sgn * int n))
      in if t = [] then Inr 0
         else if take 2 t = ''0x'' \<or> take 2 t = ''0X'' then lit 1 (parseDigits 16 (drop 2 t))
         else if take 2 t = ''0o'' \<or> take 2 t = ''0O'' then lit 1 (parseDigits 8 (drop 2 t))
         else if take 2 t = ''0b'' \<or> take 2 t = ''0B'' then lit 1 (parseDigits 2 (drop 2 t))
         else if hd t = CHR ''-'' then lit (- 1) (parseDigits 10 (tl t))
         else if hd t = CHR ''+'' then lit 1 (parseDigits 10 (tl t))
         else lit 1 (parseDigits 10 t))"

text \<open>\<^verbatim>\<open>bigint.toString()\<close> and \<^verbatim>\<open>String(n)\<close> for an integer: decimal digits, a
  leading minus sign for a negative value.\<close>

definition digitChar :: "nat \<Rightarrow> char" where
  "digitChar d = char_of (48 + d)"

fun natToString :: "nat \<Rightarrow> string" where
  "natToString n =
     (if n < 10 then [digitChar n] else natToString (n div 10) @ [digitChar (n mod 10)])"

declare natToString.simps [simp del]

definition toString :: "int \<Rightarrow> string" where
  "toString i = (if i < 0 then CHR ''-'' # natToString (nat (- i)) else natToString (nat i))"

section \<open>Data model (types/Option.ts)\<close>

text \<open>Field names carry a prefix per interface, since several interfaces of the source
  share field names (\<^verbatim>\<open>tokenId\<close>, \<^verbatim>\<open>tickLower\<close>, \<^verbatim>\<open>isProfitable\<close>, ...).\<close>

record InternalOption =
  io_handler :: string
  io_pool :: string
  io_hook :: string
  io_liquidityAtOpen :: string
  io_liquidityExercised :: string
  io_liquiditySettled :: string
  io_liquidityAtLive :: string
  io_tickLower :: string
  io_tickUpper :: string
  io_strike :: string
  io_index :: string

record OptionPosition =
  op_tokenId :: string
  op_market :: string
  op_owner :: string
  op_createdAt :: int
  op_expiry :: int
  op_isCall :: bool
  op_opTickArrayLen :: nat
  op_chainId :: int
  op_exerciseDelegate :: "bool option"
  op_internalOptions :: "InternalOption list"

section \<open>Settlement Orchestrator: handleExpiredOption\<close>

text \<open>
  The callback of \<^verbatim>\<open>option.internalOptions.map\<close> in \<^verbatim>\<open>handleExpiredOption\<close>
  (identical in both versions of SettlementEngine.ts):
  \<^verbatim>\<open>BigInt(liquidityAtOpen) - BigInt(liquidityExercised) - BigInt(liquiditySettled)\<close>.
\<close>

definition settleLiquidity :: "InternalOption \<Rightarrow> error + int" where
  "settleLiquidity internalOption =
     (case BigInt (io_liquidityAtOpen internalOption) of
        Inl e \<Rightarrow> Inl e
      | Inr atOpen \<Rightarrow>
          (case BigInt (io_liquidityExercised internalOption) of
             Inl e \<Rightarrow> Inl e
           | Inr exercised \<Rightarrow>
               (case BigInt (io_liquiditySettled internalOption) of
                  Inl e \<Rightarrow> Inl e
                | Inr settled \<Rightarrow> Inr (atOpen - exercised - settled))))"

fun liquidityToSettle :: "InternalOption list \<Rightarrow> error + int list" where
  "liquidityToSettle [] = Inr []"
| "liquidityToSettle (internalOption # rest) =
     (case settleLiquidity internalOption of
        Inl e \<Rightarrow> Inl e
      | Inr liquidityAvailable \<Rightarrow>
          (case liquidityToSettle rest of
             Inl e \<Rightarrow> Inl e
           | Inr ls \<Rightarrow> Inr (liquidityAvailable # ls)))"


section \<open>Profitability cache key (ProfitabilityCalculator.generateProfitabilityCacheKey)\<close>

text \<open>
  A sub-position of a request is a JavaScript object, and the key of the result cache is
  built from \<^verbatim>\<open>JSON.stringify\<close>, which writes the own properties of an object in the
  order the object holds them. The object is therefore modelled as the list of its
  properties (name and string value) in that order. An object of the interface
  \<^verbatim>\<open>GetRatesRequestInternalOption\<close> has the properties \<^verbatim>\<open>tickLower\<close>, \<^verbatim>\<open>tickUpper\<close> and
  \<^verbatim>\<open>liquidity\<close>, in any order and possibly among others; names are distinct.

  Reading a property that the object does not have gives \<^verbatim>\<open>undefined\<close>, on which
  \<^verbatim>\<open>parseInt\<close> works as on the string \<^verbatim>\<open>undefined\<close> (it converts its argument to a string)
  and on which \<^verbatim>\<open>BigInt\<close> throws as it does on that string (a TypeError, where the string
  gives a SyntaxError). The absent property is read as that string.
\<close>

type_synonym GetRatesRequestInternalOption = "(string \<times> string) list"

definition getProperty :: "GetRatesRequestInternalOption \<Rightarrow> string \<Rightarrow> string" where
  "getProperty obj name = (case map_of obj name of Some v \<Rightarrow> v | None \<Rightarrow> ''undefined'')"

definition rio_tickLower :: "GetRatesRequestInternalOption \<Rightarrow> string" where
  "rio_tickLower internalOption = getProperty internalOption ''tickLower''"

definition rio_tickUpper :: "GetRatesRequestInternalOption \<Rightarrow> string" where
  "rio_tickUpper internalOption = getProperty internalOption ''tickUpper''"

definition rio_liquidity :: "GetRatesRequestInternalOption \<Rightarrow> string" where
  "rio_liquidity internalOption = getProperty internalOption ''liquidity''"

text \<open>The object literal \<^verbatim>\<open>{tickLower, tickUpper, liquidity}\<close> with which
  \<^verbatim>\<open>handleExpiringOption\<close> builds each sub-position of its request.\<close>

definition internalOptionLiteral :: "string \<Rightarrow> string \<Rightarrow> string \<Rightarrow> GetRatesRequestInternalOption" where
  "internalOptionLiteral tickLower tickUpper liquidity =
     [(''tickLower'', tickLower), (''tickUpper'', tickUpper), (''liquidity'', liquidity)]"

text \<open>\<open>rq_chainId\<close> is a JavaScript number in the source; it is modelled as an integer,
  rendered in decimal by the template literal (chain identifiers are small integers).\<close>

record GetRatesRequest =
  rq_market :: string
  rq_pool :: string
  rq_tokenId :: string
  rq_isCall :: bool
  rq_chainId :: int
  rq_internalOptions :: "GetRatesRequestInternalOption list"

text \<open>
  \<^verbatim>\<open>JSON.stringify\<close> on an array of such objects: every object is written as its
  properties in their order, name and value quoted. In a quoted string the quote, the
  backslash and the control characters below 0x20 are escaped, every other character is
  copied.
\<close>

definition dquote :: char where
  "dquote = CHR 0x22"

definition backslash :: char where
  "backslash = CHR 0x5C"

definition hexDigit :: "nat \<Rightarrow> char" where
  "hexDigit d = (if d < 10 then char_of (48 + d) else char_of (87 + d))"

definition quoteJSONChar :: "char \<Rightarrow> string" where
  "quoteJSONChar c =
     (let n = (of_char c :: nat) in
      if n = 8 then [backslash, CHR ''b'']
      else if n = 9 then [backslash, CHR ''t'']
      else if n = 10 then [backslash, CHR ''n'']
      else if n = 12 then [backslash, CHR ''f'']
      else if n = 13 then [backslash, CHR ''r'']
      else if n = 34 then [backslash, dquote]
      else if n = 92 then [backslash, backslash]
      else if n < 32 then
        [backslash, CHR ''u'', CHR ''0'', CHR ''0'', hexDigit (n div 16), hexDigit (n mod 16)]
      else [c])"

definition quoteJSONString :: "string \<Rightarrow> string" where
  "quoteJSONString s = dquote # concat (map quoteJSONChar s) @ [dquote]"

fun joinComma :: "string list \<Rightarrow> string" where
  "joinComma [] = []"
| "joinComma [x] = x"
| "joinComma (x # y # r) = x @ '','' @ joinComma (y # r)"

definition jsonProperty :: "string \<times> string \<Rightarrow> string" where
  "jsonProperty p = quoteJSONString (fst p) @ '':'' @ quoteJSONString (snd p)"

definition stringifyInternalOption :: "GetRatesRequestInternalOption \<Rightarrow> string" where
  "stringifyInternalOption internalOption =
     ''{'' @ joinComma (map jsonProperty internalOption) @ ''}''"

definition stringifyInternalOptions :: "GetRatesRequestInternalOption list \<Rightarrow> string" where
  "stringifyInternalOptions ios = ''['' @ joinComma (map stringifyInternalOption ios) @ '']''"

definition boolToString :: "bool \<Rightarrow> string" where
  "boolToString b = (if b then ''true'' else ''false'')"

definition generateProfitabilityCacheKey :: "GetRatesRequest \<Rightarrow> string" where
  "generateProfitabilityCacheKey request =
     toString (rq_chainId request) @ ''-'' @ rq_market request @ ''-'' @ rq_pool request @ ''-'' @
     rq_tokenId request @ ''-'' @ boolToString (rq_isCall request) @ ''-'' @
     stringifyInternalOptions (rq_internalOptions request)"

definition generatePoolMarketCacheKey :: "int \<Rightarrow> string \<Rightarrow> string \<Rightarrow> string" where
  "generatePoolMarketCacheKey chainId market pool =
     toString chainId @ ''-'' @ market @ ''-'' @ pool"

definition CACHE_TTL_MS :: int where
  "CACHE_TTL_MS = 5000"

text \<open>\<^verbatim>\<open>isCacheValid\<close>; the reading of \<^verbatim>\<open>Date.now()\<close> is the first argument.\<close>

definition isCacheValid :: "int \<Rightarrow> int \<Rightarrow> bool" where
  "isCacheValid now timestamp = (now - timestamp < CACHE_TTL_MS)"

section \<open>Fixed-point range calculator\<close>

text \<open>
  Modelled from the spec: \<^verbatim>\<open>SqrtPriceMath.getAmount0Delta\<close>, \<^verbatim>\<open>getAmount1Delta\<close> and
  \<^verbatim>\<open>FullMath.mulDivRoundingUp\<close> belong to the package @uniswap/v3-sdk, which is not under
  src/. Section 4.1 of the spec: the closed-form delta formulas of concentrated liquidity
  on the two fixed-point square-root prices, rounding up. The formulas are evaluated the
  way the Uniswap library does, with big-integer division that truncates towards zero and
  raises on a zero divisor, and one upward correction per division.
\<close>

definition Q96 :: int where
  "Q96 = 2 ^ 96"

text \<open>Modelled from the spec: \<^verbatim>\<open>FullMath.mulDivRoundingUp\<close> (package @uniswap/v3-sdk, not
  under src/): the quotient of \<open>a * b\<close> by the denominator, rounded up.\<close>

definition mulDivRoundingUp :: "int \<Rightarrow> int \<Rightarrow> int \<Rightarrow> error + int" where
  "mulDivRoundingUp a b denominator =
     (if denominator = 0 then Inl RangeError
      else let product = a * b;
               result = product sdiv denominator
           in if product smod denominator \<noteq> 0 then Inr (result + 1) else Inr result)"

text \<open>Modelled from the spec: \<^verbatim>\<open>SqrtPriceMath.getAmount0Delta(a, b, liquidity, true)\<close>
  (package @uniswap/v3-sdk, not under src/): the token0 delta formula, rounded up.\<close>

definition getAmount0Delta :: "int \<Rightarrow> int \<Rightarrow> int \<Rightarrow> error + int" where
  "getAmount0Delta sqrtRatioAX96 sqrtRatioBX96 liquidity =
     (let lo = (if sqrtRatioAX96 > sqrtRatioBX96 then sqrtRatioBX96 else sqrtRatioAX96);
          hi = (if sqrtRatioAX96 > sqrtRatioBX96 then sqrtRatioAX96 else sqrtRatioBX96);
          numerator1 = liquidity * 2 ^ 96;
          numerator2 = hi - lo
      in case mulDivRoundingUp numerator1 numerator2 hi of
           Inl e \<Rightarrow> Inl e
         | Inr q \<Rightarrow> mulDivRoundingUp q 1 lo)"

text \<open>Modelled from the spec: \<^verbatim>\<open>SqrtPriceMath.getAmount1Delta(a, b, liquidity, true)\<close>
  (package @uniswap/v3-sdk, not under src/): the token1 delta formula, rounded up.\<close>

definition getAmount1Delta :: "int \<Rightarrow> int \<Rightarrow> int \<Rightarrow> error + int" where
  "getAmount1Delta sqrtRatioAX96 sqrtRatioBX96 liquidity =
     (let lo = (if sqrtRatioAX96 > sqrtRatioBX96 then sqrtRatioBX96 else sqrtRatioAX96);
          hi = (if sqrtRatioAX96 > sqrtRatioBX96 then sqrtRatioAX96 else sqrtRatioBX96)
      in mulDivRoundingUp liquidity (hi - lo) Q96)"

text \<open>The same two formulas in exact rational arithmetic, truncated: the reference the
  rounding direction is measured against.\<close>

definition exactAmount0 :: "int \<Rightarrow> int \<Rightarrow> int \<Rightarrow> real" where
  "exactAmount0 a b liquidity =
     real_of_int liquidity * 2 ^ 96 * \<bar>real_of_int b - real_of_int a\<bar> /
       (real_of_int a * real_of_int b)"

definition exactAmount1 :: "int \<Rightarrow> int \<Rightarrow> int \<Rightarrow> real" where
  "exactAmount1 a b liquidity =
     real_of_int liquidity * \<bar>real_of_int b - real_of_int a\<bar> / 2 ^ 96"

text \<open>\<^verbatim>\<open>parseInt(string)\<close>: leading white space, a sign, an optional \<^verbatim>\<open>0x\<close> prefix,
  then the longest run of digits; \<open>None\<close> is NaN.\<close>

definition parseInt :: "string \<Rightarrow> int option" where
  "parseInt s =
     (let t = dropWhile isWhiteSpace s;
          neg = (t \<noteq> [] \<and> hd t = CHR ''-'');
          u = (if t \<noteq> [] \<and> (hd t = CHR ''-'' \<or> hd t = CHR ''+'') then tl t else t);
          hex = (take 2 u = ''0x'' \<or> take 2 u = ''0X'');
          b = (if hex then 16 else 10);
          v = (if hex then drop 2 u else u);
          ds = takeWhile (\<lambda>c. case digitValue c of None \<Rightarrow> False | Some d \<Rightarrow> d < b) v
      in if ds = [] then None
         else map_option (\<lambda>n. if neg then - int n else int n) (digitsValue b ds 0))"


section \<open>Profitability Evaluator (ProfitabilityCalculator.calculateOptionProfitability)\<close>

record ProfitabilityResult =
  pr_index :: nat
  pr_liquidityAvailable :: string
  pr_amountLocked :: string
  pr_quotedAmountOut :: string
  pr_amountToRefill :: string
  pr_profit :: string
  pr_isProfitable :: bool

record ExerciseParams =
  ep_optionId :: string
  ep_swapper :: "string list"
  ep_swapData :: "string list"
  ep_liquidityToExercise :: "string list"

record GetRatesResponse =
  rs_tokenId :: string
  rs_totalProfit :: string
  rs_isProfitable :: bool
  rs_details :: "ProfitabilityResult list"
  rs_exerciseParams :: "ExerciseParams option"

record PoolMarketInfo =
  pmi_poolFee :: int
  pmi_callAsset :: string
  pmi_putAsset :: string
  pmi_token0 :: string
  pmi_token1 :: string
  pmi_primePool :: "string option"

text \<open>One entry of a viem multicall: \<^verbatim>\<open>{status: "success", result}\<close> or
  \<^verbatim>\<open>{status: "failure", error}\<close>.\<close>

datatype 'a callResult = Success (result: 'a) | Failure (failure: error)

definition isFailure :: "'a callResult \<Rightarrow> bool" where
  "isFailure r = (case r of Success v \<Rightarrow> False | Failure e \<Rightarrow> True)"

text \<open>The five results of the pool/market multicall, in the order of the contracts array.\<close>

record poolDataBatch =
  pd_fee :: "int callResult"
  pd_callAsset :: "string callResult"
  pd_putAsset :: "string callResult"
  pd_token0 :: "string callResult"
  pd_token1 :: "string callResult"

record quoteRequest =
  qr_address :: string
  qr_tokenIn :: string
  qr_tokenOut :: string
  qr_amountIn :: int
  qr_fee :: int
  qr_sqrtPriceLimitX96 :: int

text \<open>The tuple \<^verbatim>\<open>[bigint, bigint, number, bigint]\<close> returned by quoteExactInputSingle.\<close>

type_synonym quoteTuple = "int \<times> int \<times> int \<times> int"

record optionData =
  od_index :: nat
  od_liquidityAvailable :: int
  od_amountLocked :: int
  od_amountToRefill :: int
  od_skipQuote :: bool

text \<open>The network calls a run of the evaluator issues, in order (a record of the effects,
  kept beside the two caches).\<close>

datatype netCall =
    ReadPrimePool string
  | MulticallPoolData string string
  | MulticallQuotes "quoteRequest list"

record calcState =
  profitabilityCache :: "string \<rightharpoonup> (int \<times> GetRatesResponse)"
  poolMarketInfoCache :: "string \<rightharpoonup> PoolMarketInfo"
  networkLog :: "netCall list"

text \<open>
  What one call of the evaluator reads from outside: the clock, the chain configuration
  service (the version of ChainConfigService with \<^verbatim>\<open>getQuoterAddress\<close> is not under
  src/, so its three getters are parameters that return a string or throw), the chain
  client, and the library functions \<^verbatim>\<open>TickMath.getSqrtRatioAtTick\<close> and
  \<^verbatim>\<open>encodePacked(["uint24","uint256"], [poolFee, 0n])\<close>.
\<close>

record env =
  dateNowCheck :: int
  dateNowStore :: int
  getRpcUrl :: "int \<Rightarrow> error + string"
  getQuoterAddress :: "int \<Rightarrow> error + string"
  getSwapRouterSwapper :: "int \<Rightarrow> error + string"
  readPrimePool :: "string \<Rightarrow> error + string"
  multicallPoolData :: "string \<Rightarrow> string \<Rightarrow> error + poolDataBatch"
  multicallQuotes :: "quoteRequest list \<Rightarrow> error + quoteTuple callResult list"
  getSqrtRatioAtTick :: "int \<Rightarrow> error + int"
  encodePacked :: "int \<Rightarrow> error + string"

definition createPublicClientForChain :: "env \<Rightarrow> int \<Rightarrow> error + unit" where
  "createPublicClientForChain env chainId =
     (case getRpcUrl env chainId of Inl e \<Rightarrow> Inl e | Inr rpcUrl \<Rightarrow> Inr ())"

definition anyFailure :: "poolDataBatch \<Rightarrow> bool" where
  "anyFailure r =
     (isFailure (pd_fee r) \<or> isFailure (pd_callAsset r) \<or> isFailure (pd_putAsset r) \<or>
      isFailure (pd_token0 r) \<or> isFailure (pd_token1 r))"

definition getPoolMarketInfo ::
  "env \<Rightarrow> calcState \<Rightarrow> int \<Rightarrow> string \<Rightarrow> string \<Rightarrow> (error + PoolMarketInfo) \<times> calcState" where
  "getPoolMarketInfo env st chainId market pool =
     (let cacheKey = generatePoolMarketCacheKey chainId market pool in
      case poolMarketInfoCache st cacheKey of
        Some cachedInfo \<Rightarrow> (Inr cachedInfo, st)
      | None \<Rightarrow>
          (case (if market = pool then (Inr pool, st)
                 else (readPrimePool env market,
                       st\<lparr>networkLog := networkLog st @ [ReadPrimePool market]\<rparr>)) of
             (Inl e, st1) \<Rightarrow> (Inl e, st1)
           | (Inr primePool, st1) \<Rightarrow>
               (let st2 = st1\<lparr>networkLog := networkLog st1 @ [MulticallPoolData pool market]\<rparr> in
                case multicallPoolData env pool market of
                  Inl e \<Rightarrow> (Inl e, st2)
                | Inr multicallResult \<Rightarrow>
                    if anyFailure multicallResult then (Inl PoolDataError, st2)
                    else
                      (let info = \<lparr>pmi_poolFee = result (pd_fee multicallResult),
                                   pmi_callAsset = result (pd_callAsset multicallResult),
                                   pmi_putAsset = result (pd_putAsset multicallResult),
                                   pmi_token0 = result (pd_token0 multicallResult),
                                   pmi_token1 = result (pd_token1 multicallResult),
                                   pmi_primePool = Some primePool\<rparr>
                       in (Inr info,
                           st2\<lparr>poolMarketInfoCache := (poolMarketInfoCache st2)(cacheKey \<mapsto> info)\<rparr>)))))"

definition isAmount0 :: "PoolMarketInfo \<Rightarrow> bool \<Rightarrow> bool" where
  "isAmount0 info isCall =
     (if isCall then pmi_token0 info = pmi_callAsset info else pmi_token0 info = pmi_putAsset info)"

definition assetToUse :: "PoolMarketInfo \<Rightarrow> bool \<Rightarrow> string" where
  "assetToUse info isCall = (if isCall then pmi_callAsset info else pmi_putAsset info)"

definition assetToGet :: "PoolMarketInfo \<Rightarrow> bool \<Rightarrow> string" where
  "assetToGet info isCall = (if isCall then pmi_putAsset info else pmi_callAsset info)"

text \<open>\<^verbatim>\<open>TickMath.getSqrtRatioAtTick(Number(parseInt(s)))\<close>; the library rejects NaN.\<close>

definition sqrtRatioOfTick :: "env \<Rightarrow> string \<Rightarrow> error + int" where
  "sqrtRatioOfTick env s =
     (case parseInt s of None \<Rightarrow> Inl InvariantError | Some tick \<Rightarrow> getSqrtRatioAtTick env tick)"

text \<open>The range calculation of one sub-position with positive liquidity: the pair
  (amountLocked, amountToRefill).\<close>

definition rangeAmounts :: "env \<Rightarrow> bool \<Rightarrow> string \<Rightarrow> string \<Rightarrow> int \<Rightarrow> error + (int \<times> int)" where
  "rangeAmounts env amount0Locked tickLower tickUpper liquidityAvailable =
     (case sqrtRatioOfTick env tickLower of
        Inl e \<Rightarrow> Inl e
      | Inr sqrtRatioAX96 \<Rightarrow>
          (case sqrtRatioOfTick env tickUpper of
             Inl e \<Rightarrow> Inl e
           | Inr sqrtRatioBX96 \<Rightarrow>
               (case getAmount0Delta sqrtRatioAX96 sqrtRatioBX96 liquidityAvailable of
                  Inl e \<Rightarrow> Inl e
                | Inr amount0 \<Rightarrow>
                    (case getAmount1Delta sqrtRatioAX96 sqrtRatioBX96 liquidityAvailable of
                       Inl e \<Rightarrow> Inl e
                     | Inr amount1 \<Rightarrow>
                         if amount0Locked then Inr (amount0, amount1)
                         else Inr (amount1, amount0)))))"

text \<open>The body of the first loop for the sub-position at index \<open>i\<close>: the entry it
  pushes to \<^verbatim>\<open>quoteRequests\<close> (none on the \<^verbatim>\<open>continue\<close> branch) and the entry it pushes
  to \<^verbatim>\<open>internalOptionsData\<close>.\<close>

definition scanOption ::
  "env \<Rightarrow> PoolMarketInfo \<Rightarrow> bool \<Rightarrow> string \<Rightarrow> nat \<Rightarrow> GetRatesRequestInternalOption \<Rightarrow>
   error + (quoteRequest option \<times> optionData)" where
  "scanOption env info isCall quoterAddress i internalOption =
     (case BigInt (rio_liquidity internalOption) of
        Inl e \<Rightarrow> Inl e
      | Inr liquidityAvailable \<Rightarrow>
          if liquidityAvailable \<le> 0 then
            Inr (None,
                 \<lparr>od_index = i, od_liquidityAvailable = 0, od_amountLocked = 0,
                  od_amountToRefill = 0, od_skipQuote = True\<rparr>)
          else
            (case rangeAmounts env (isAmount0 info isCall) (rio_tickLower internalOption)
                    (rio_tickUpper internalOption) liquidityAvailable of
               Inl e \<Rightarrow> Inl e
             | Inr (amountLocked, amountToRefill) \<Rightarrow>
                 Inr (Some \<lparr>qr_address = quoterAddress, qr_tokenIn = assetToUse info isCall,
                            qr_tokenOut = assetToGet info isCall, qr_amountIn = amountLocked,
                            qr_fee = pmi_poolFee info, qr_sqrtPriceLimitX96 = 0\<rparr>,
                      \<lparr>od_index = i, od_liquidityAvailable = liquidityAvailable,
                       od_amountLocked = amountLocked, od_amountToRefill = amountToRefill,
                       od_skipQuote = False\<rparr>)))"

text \<open>The first loop of the method, over \<^verbatim>\<open>request.internalOptions\<close> from index \<open>i\<close>, with
  the two arrays it pushes to.\<close>

fun scanOptions ::
  "env \<Rightarrow> PoolMarketInfo \<Rightarrow> bool \<Rightarrow> string \<Rightarrow> GetRatesRequestInternalOption list \<Rightarrow> nat \<Rightarrow>
   quoteRequest list \<Rightarrow> optionData list \<Rightarrow> error + (quoteRequest list \<times> optionData list)" where
  "scanOptions env info isCall quoterAddress [] i quoteRequests internalOptionsData =
     Inr (quoteRequests, internalOptionsData)"
| "scanOptions env info isCall quoterAddress (internalOption # rest) i quoteRequests
     internalOptionsData =
     (case scanOption env info isCall quoterAddress i internalOption of
        Inl e \<Rightarrow> Inl e
      | Inr (pushedQuote, pushedData) \<Rightarrow>
          scanOptions env info isCall quoterAddress rest (i + 1)
            (case pushedQuote of None \<Rightarrow> quoteRequests | Some qr \<Rightarrow> quoteRequests @ [qr])
            (internalOptionsData @ [pushedData]))"

definition executeQuotes ::
  "env \<Rightarrow> calcState \<Rightarrow> quoteRequest list \<Rightarrow> (error + quoteTuple callResult list) \<times> calcState" where
  "executeQuotes env st quoteRequests =
     (if length quoteRequests > 0 then
        (multicallQuotes env quoteRequests,
         st\<lparr>networkLog := networkLog st @ [MulticallQuotes quoteRequests]\<rparr>)
      else (Inr [], st))"

definition skippedDetail :: "optionData \<Rightarrow> ProfitabilityResult" where
  "skippedDetail optionData =
     \<lparr>pr_index = od_index optionData, pr_liquidityAvailable = ''0'', pr_amountLocked = ''0'',
      pr_quotedAmountOut = ''0'', pr_amountToRefill = ''0'', pr_profit = ''0'',
      pr_isProfitable = False\<rparr>"

definition failedDetail :: "optionData \<Rightarrow> ProfitabilityResult" where
  "failedDetail optionData =
     \<lparr>pr_index = od_index optionData,
      pr_liquidityAvailable = toString (od_liquidityAvailable optionData),
      pr_amountLocked = toString (od_amountLocked optionData),
      pr_quotedAmountOut = ''0'',
      pr_amountToRefill = toString (od_amountToRefill optionData),
      pr_profit = ''0'', pr_isProfitable = False\<rparr>"

definition quotedDetail :: "optionData \<Rightarrow> int \<Rightarrow> ProfitabilityResult" where
  "quotedDetail optionData quotedAmountOut =
     (let profit = quotedAmountOut - od_amountToRefill optionData in
      \<lparr>pr_index = od_index optionData,
       pr_liquidityAvailable = toString (od_liquidityAvailable optionData),
       pr_amountLocked = toString (od_amountLocked optionData),
       pr_quotedAmountOut = toString quotedAmountOut,
       pr_amountToRefill = toString (od_amountToRefill optionData),
       pr_profit = toString profit, pr_isProfitable = (profit > 0)\<rparr>)"

text \<open>The second loop, over \<^verbatim>\<open>internalOptionsData\<close>; reading \<^verbatim>\<open>quoteResults\<close> past its
  end gives \<^verbatim>\<open>undefined\<close>, whose \<^verbatim>\<open>status\<close> access throws a TypeError.\<close>

fun processResults ::
  "quoteTuple callResult list \<Rightarrow> optionData list \<Rightarrow> nat \<Rightarrow> int \<Rightarrow> ProfitabilityResult list \<Rightarrow>
   error + (int \<times> ProfitabilityResult list)" where
  "processResults quoteResults [] quoteIndex totalProfit profitabilityDetails =
     Inr (totalProfit, profitabilityDetails)"
| "processResults quoteResults (optionData # rest) quoteIndex totalProfit profitabilityDetails =
     (if od_skipQuote optionData then
        processResults quoteResults rest quoteIndex totalProfit
          (profitabilityDetails @ [skippedDetail optionData])
      else if quoteIndex \<ge> length quoteResults then Inl TypeError
      else
        (case quoteResults ! quoteIndex of
           Failure err \<Rightarrow>
             processResults quoteResults rest (quoteIndex + 1) totalProfit
               (profitabilityDetails @ [failedDetail optionData])
         | Success res \<Rightarrow>
             (let quotedAmountOut = fst res;
                  profit = quotedAmountOut - od_amountToRefill optionData
              in processResults quoteResults rest (quoteIndex + 1)
                   (if profit > 0 then totalProfit + profit else totalProfit)
                   (profitabilityDetails @ [quotedDetail optionData quotedAmountOut]))))"

text \<open>The position in \<^verbatim>\<open>quoteResults\<close> that the second loop reads for entry \<open>k\<close> of
  \<^verbatim>\<open>internalOptionsData\<close>: the number of earlier entries that were not skipped.\<close>

definition quoteSlot :: "optionData list \<Rightarrow> nat \<Rightarrow> nat" where
  "quoteSlot ods k = length (filter (\<lambda>d. \<not> od_skipQuote d) (take k ods))"

text \<open>The profit the second loop adds to \<^verbatim>\<open>totalProfit\<close> for entry \<open>k\<close> of the entries
  it still has to visit, when \<^verbatim>\<open>quoteIndex\<close> stands at \<open>quoteIndex\<close>.\<close>

definition profitAdded ::
  "quoteTuple callResult list \<Rightarrow> nat \<Rightarrow> optionData list \<Rightarrow> nat \<Rightarrow> int" where
  "profitAdded quoteResults quoteIndex ods k =
     (if od_skipQuote (ods ! k) then 0
      else case quoteResults ! (quoteIndex + quoteSlot ods k) of
             Failure err \<Rightarrow> 0
           | Success res \<Rightarrow>
               (let profit = fst res - od_amountToRefill (ods ! k)
                in if profit > 0 then profit else 0))"

text \<open>The detail the second loop pushes for entry \<open>k\<close> of the entries it still has to
  visit, when \<^verbatim>\<open>quoteIndex\<close> stands at \<open>quoteIndex\<close>.\<close>

definition detailAt ::
  "quoteTuple callResult list \<Rightarrow> nat \<Rightarrow> optionData list \<Rightarrow> nat \<Rightarrow> ProfitabilityResult" where
  "detailAt quoteResults quoteIndex ods k =
     (if od_skipQuote (ods ! k) then skippedDetail (ods ! k)
      else case quoteResults ! (quoteIndex + quoteSlot ods k) of
             Failure err \<Rightarrow> failedDetail (ods ! k)
           | Success res \<Rightarrow> quotedDetail (ods ! k) (fst res))"

text \<open>Everything of the \<^verbatim>\<open>try\<close> block up to the profitability details: metadata, scan,
  one quote batch, profit per sub-position.\<close>

definition evaluate ::
  "env \<Rightarrow> calcState \<Rightarrow> GetRatesRequest \<Rightarrow>
   (error + (PoolMarketInfo \<times> int \<times> ProfitabilityResult list)) \<times> calcState" where
  "evaluate env st request =
     (case createPublicClientForChain env (rq_chainId request) of
        Inl e \<Rightarrow> (Inl e, st)
      | Inr publicClient \<Rightarrow>
          (case getPoolMarketInfo env st (rq_chainId request) (rq_market request)
                  (rq_pool request) of
             (Inl e, st1) \<Rightarrow> (Inl e, st1)
           | (Inr poolMarketInfo, st1) \<Rightarrow>
               (case getQuoterAddress env (rq_chainId request) of
                  Inl e \<Rightarrow> (Inl e, st1)
                | Inr quoterAddress \<Rightarrow>
                    (case scanOptions env poolMarketInfo (rq_isCall request) quoterAddress
                            (rq_internalOptions request) 0 [] [] of
                       Inl e \<Rightarrow> (Inl e, st1)
                     | Inr (quoteRequests, internalOptionsData) \<Rightarrow>
                         (case executeQuotes env st1 quoteRequests of
                            (Inl e, st2) \<Rightarrow> (Inl e, st2)
                          | (Inr quoteResults, st2) \<Rightarrow>
                              (case processResults quoteResults internalOptionsData 0 0 [] of
                                 Inl e \<Rightarrow> (Inl e, st2)
                               | Inr (totalProfit, profitabilityDetails) \<Rightarrow>
                                   (Inr (poolMarketInfo, totalProfit, profitabilityDetails),
                                    st2)))))))"

definition liquidityToExerciseOf :: "ProfitabilityResult list \<Rightarrow> string list" where
  "liquidityToExerciseOf profitabilityDetails =
     map (\<lambda>detail. if pr_isProfitable detail then pr_liquidityAvailable detail else ''0'')
       profitabilityDetails"

fun encodeSwapData :: "env \<Rightarrow> int \<Rightarrow> GetRatesRequestInternalOption list \<Rightarrow> error + string list" where
  "encodeSwapData env poolFee [] = Inr []"
| "encodeSwapData env poolFee (internalOption # rest) =
     (case encodePacked env poolFee of
        Inl e \<Rightarrow> Inl e
      | Inr d \<Rightarrow>
          (case encodeSwapData env poolFee rest of
             Inl e \<Rightarrow> Inl e
           | Inr ds \<Rightarrow> Inr (d # ds)))"

text \<open>The response of the two early returns after the details exist (swap data encoding
  failed, or no swapper address).\<close>

definition emptyParamsResponse ::
  "GetRatesRequest \<Rightarrow> int \<Rightarrow> ProfitabilityResult list \<Rightarrow> GetRatesResponse" where
  "emptyParamsResponse request totalProfit profitabilityDetails =
     \<lparr>rs_tokenId = rq_tokenId request, rs_totalProfit = toString totalProfit,
      rs_isProfitable = (totalProfit > 0), rs_details = profitabilityDetails,
      rs_exerciseParams =
        Some \<lparr>ep_optionId = rq_tokenId request, ep_swapper = [], ep_swapData = [],
              ep_liquidityToExercise = replicate (length (rq_internalOptions request)) ''0''\<rparr>\<rparr>"

text \<open>The response of the \<^verbatim>\<open>catch\<close> block.\<close>

definition errorResponse :: "GetRatesRequest \<Rightarrow> GetRatesResponse" where
  "errorResponse request =
     \<lparr>rs_tokenId = rq_tokenId request, rs_totalProfit = ''0'', rs_isProfitable = False,
      rs_details = [],
      rs_exerciseParams =
        Some \<lparr>ep_optionId = rq_tokenId request, ep_swapper = [], ep_swapData = [],
              ep_liquidityToExercise = replicate (length (rq_internalOptions request)) ''0''\<rparr>\<rparr>"

definition fullResponse ::
  "GetRatesRequest \<Rightarrow> int \<Rightarrow> ProfitabilityResult list \<Rightarrow> string list \<Rightarrow> string \<Rightarrow>
   GetRatesResponse" where
  "fullResponse request totalProfit profitabilityDetails swapData swapRouterSwapperAddress =
     \<lparr>rs_tokenId = rq_tokenId request, rs_totalProfit = toString totalProfit,
      rs_isProfitable = (totalProfit > 0), rs_details = profitabilityDetails,
      rs_exerciseParams =
        Some \<lparr>ep_optionId = rq_tokenId request,
              ep_swapper = replicate (length (rq_internalOptions request)) swapRouterSwapperAddress,
              ep_swapData = swapData,
              ep_liquidityToExercise = liquidityToExerciseOf profitabilityDetails\<rparr>\<rparr>"

text \<open>The body of the \<^verbatim>\<open>try\<close> block: \<open>Inl\<close> is an exception reaching the \<^verbatim>\<open>catch\<close>.\<close>

definition calculateTry ::
  "env \<Rightarrow> calcState \<Rightarrow> GetRatesRequest \<Rightarrow> string \<Rightarrow> (error + GetRatesResponse) \<times> calcState" where
  "calculateTry env st request cacheKey =
     (case evaluate env st request of
        (Inl e, st2) \<Rightarrow> (Inl e, st2)
      | (Inr (poolMarketInfo, totalProfit, profitabilityDetails), st2) \<Rightarrow>
          (case encodeSwapData env (pmi_poolFee poolMarketInfo) (rq_internalOptions request) of
             Inl e \<Rightarrow> (Inr (emptyParamsResponse request totalProfit profitabilityDetails), st2)
           | Inr swapData \<Rightarrow>
               (case getSwapRouterSwapper env (rq_chainId request) of
                  Inl e \<Rightarrow> (Inl e, st2)
                | Inr swapRouterSwapperAddress \<Rightarrow>
                    if swapRouterSwapperAddress = [] then
                      (Inr (emptyParamsResponse request totalProfit profitabilityDetails), st2)
                    else
                      (let res = fullResponse request totalProfit profitabilityDetails
                                   swapData swapRouterSwapperAddress
                       in (Inr res,
                           st2\<lparr>profitabilityCache :=
                                 (profitabilityCache st2)(cacheKey \<mapsto> (dateNowStore env, res))\<rparr>)))))"

text \<open>Whether the call is served from the result cache.\<close>

definition cacheHit :: "env \<Rightarrow> calcState \<Rightarrow> GetRatesRequest \<Rightarrow> bool" where
  "cacheHit env st request =
     (case profitabilityCache st (generateProfitabilityCacheKey request) of
        None \<Rightarrow> False
      | Some cachedResult \<Rightarrow> isCacheValid (dateNowCheck env) (fst cachedResult))"

definition calculateOptionProfitability ::
  "env \<Rightarrow> calcState \<Rightarrow> GetRatesRequest \<Rightarrow> GetRatesResponse \<times> calcState" where
  "calculateOptionProfitability env st request =
     (let cacheKey = generateProfitabilityCacheKey request;
          compute = (case calculateTry env st request cacheKey of
                       (Inl e, st') \<Rightarrow> (errorResponse request, st')
                     | (Inr res, st') \<Rightarrow> (res, st'))
      in case profitabilityCache st cacheKey of
           None \<Rightarrow> compute
         | Some cachedResult \<Rightarrow>
             if isCacheValid (dateNowCheck env) (fst cachedResult) then (snd cachedResult, st)
             else compute)"

section \<open>Settlement Orchestrator: the control loop (SettlementEngine.start / stop)\<close>

datatype logEntry = LogWarn string | LogInfo string | LogError string error

record engineState =
  isRunning :: bool
  cacheCleanupInterval :: bool
  logger :: "logEntry list"
  passes :: nat

text \<open>
  One pass of the \<^verbatim>\<open>while\<close> body as the loop sees it: the exception that left the
  \<^verbatim>\<open>try\<close> block, if any, and whether \<^verbatim>\<open>stop()\<close> ran while the pass was awaiting
  (\<^verbatim>\<open>stop\<close> is called from the signal handlers of index.ts).
\<close>

record pass =
  thrown :: "error option"
  stopCalled :: bool

definition stop :: "engineState \<Rightarrow> engineState" where
  "stop eng =
     eng\<lparr>isRunning := False,
         logger := logger eng @ [LogInfo ''Stopping settlement engine''],
         cacheCleanupInterval := False\<rparr>"

definition runPass :: "pass \<Rightarrow> engineState \<Rightarrow> engineState" where
  "runPass p eng =
     (let eng1 = eng\<lparr>passes := passes eng + 1\<rparr>;
          eng2 = (if stopCalled p then stop eng1 else eng1)
      in case thrown p of
           None \<Rightarrow> eng2
         | Some err \<Rightarrow> eng2\<lparr>logger := logger eng2 @ [LogError ''Error in main loop:'' err]\<rparr>)"

text \<open>The \<^verbatim>\<open>while (this.isRunning)\<close> loop over the passes \<open>schedule n\<close>, \<open>schedule (n + 1)\<close>,
  ...; \<open>None\<close> is a loop that never exits.\<close>

partial_function (option) mainLoop :: "(nat \<Rightarrow> pass) \<Rightarrow> nat \<Rightarrow> engineState \<Rightarrow> engineState option" where
  "mainLoop schedule n eng =
     (if isRunning eng then mainLoop schedule (n + 1) (runPass (schedule n) eng)
      else Some eng)"

definition start :: "(nat \<Rightarrow> pass) \<Rightarrow> engineState \<Rightarrow> engineState option" where
  "start schedule eng =
     (if isRunning eng then
        Some (eng\<lparr>logger := logger eng @ [LogWarn ''Settlement engine is already running'']\<rparr>)
      else
        (case mainLoop schedule 0
                (eng\<lparr>isRunning := True,
                     logger := logger eng @ [LogInfo ''Starting settlement engine''],
                     cacheCleanupInterval := True\<rparr>) of
           None \<Rightarrow> None
         | Some eng' \<Rightarrow> Some (eng'\<lparr>cacheCleanupInterval := False\<rparr>)))"


section \<open>Sample inputs\<close>

text \<open>A position on chain 8453 whose market is its own pricing pool, with one
  sub-position of liquidity 1000000 between the ticks -100 and 100; a pool of fee 500 whose
  token1 is the call asset; a quoter that answers 10050 for every request. The square-root
  prices are those of \<^verbatim>\<open>TickMath.getSqrtRatioAtTick\<close> at the ticks -100, 0 and 100, the
  only ticks the environment knows; between -100 and 100 the range calculator yields
  10000 for either token.\<close>

definition sampleRequest :: GetRatesRequest where
  "sampleRequest =
     \<lparr>rq_market = ''0xmarket'', rq_pool = ''0xmarket'', rq_tokenId = ''42'', rq_isCall = True,
      rq_chainId = 8453,
      rq_internalOptions =
        [internalOptionLiteral ''-100'' ''100'' ''1000000'']\<rparr>"

definition samplePoolData :: poolDataBatch where
  "samplePoolData =
     \<lparr>pd_fee = Success 500, pd_callAsset = Success ''0xweth'', pd_putAsset = Success ''0xusdc'',
      pd_token0 = Success ''0xusdc'', pd_token1 = Success ''0xweth''\<rparr>"

text \<open>\<^verbatim>\<open>encodePacked(["uint24", "uint256"], [poolFee, 0])\<close> of the package viem: the fee
  on three bytes and the amount on thirty-two, in hexadecimal; a fee that does not fit 24
  bits is rejected.\<close>

definition uint24Hex :: "nat \<Rightarrow> string" where
  "uint24Hex n = map (\<lambda>k. hexDigit (n div 16 ^ k mod 16)) [5, 4, 3, 2, 1, 0]"

definition packFeeAndZero :: "int \<Rightarrow> error + string" where
  "packFeeAndZero poolFee =
     (if 0 \<le> poolFee \<and> poolFee < 2 ^ 24
      then Inr (''0x'' @ uint24Hex (nat poolFee) @ replicate 64 CHR ''0'')
      else Inl EncodingError)"

text \<open>The packed encoding of the fee 500.\<close>

definition samplePacked :: string where
  "samplePacked = ''0x0001f4'' @ replicate 64 CHR ''0''"

definition sampleSqrtRatio :: "int \<Rightarrow> error + int" where
  "sampleSqrtRatio tick =
     (if tick = - 100 then Inr 78833030112140176575862854579
      else if tick = 0 then Inr 79228162514264337593543950336
      else if tick = 100 then Inr 79625275426524748796330556128
      else Inl InvariantError)"

definition sampleEnv :: env where
  "sampleEnv =
     \<lparr>dateNowCheck = 1000, dateNowStore = 1010,
      getRpcUrl = (\<lambda>chainId. Inr ''http://rpc''),
      getQuoterAddress = (\<lambda>chainId. Inr ''0xquoter''),
      getSwapRouterSwapper = (\<lambda>chainId. Inr ''0xswapper''),
      readPrimePool = (\<lambda>market. Inr ''0xpool''),
      multicallPoolData = (\<lambda>pool market. Inr samplePoolData),
      multicallQuotes = (\<lambda>qs. Inr (map (\<lambda>q. Success (10050, 0, 0, 0)) qs)),
      getSqrtRatioAtTick = sampleSqrtRatio,
      encodePacked = packFeeAndZero\<rparr>"

definition sampleInfo :: PoolMarketInfo where
  "sampleInfo =
     \<lparr>pmi_poolFee = 500, pmi_callAsset = ''0xweth'', pmi_putAsset = ''0xusdc'',
      pmi_token0 = ''0xusdc'', pmi_token1 = ''0xweth'', pmi_primePool = Some ''0xmarket''\<rparr>"

definition sampleQuote :: quoteRequest where
  "sampleQuote =
     \<lparr>qr_address = ''0xquoter'', qr_tokenIn = ''0xweth'', qr_tokenOut = ''0xusdc'',
      qr_amountIn = 10000, qr_fee = 500, qr_sqrtPriceLimitX96 = 0\<rparr>"

definition emptyState :: calcState where
  "emptyState =
     \<lparr>profitabilityCache = Map.empty, poolMarketInfoCache = Map.empty, networkLog = []\<rparr>"

text \<open>The response and the state of the evaluator after the sample request has been
  evaluated on an empty state.\<close>

definition sampleResponse :: GetRatesResponse where
  "sampleResponse =
     \<lparr>rs_tokenId = ''42'', rs_totalProfit = ''50'', rs_isProfitable = True,
      rs_details =
        [\<lparr>pr_index = 0, pr_liquidityAvailable = ''1000000'', pr_amountLocked = ''10000'',
          pr_quotedAmountOut = ''10050'', pr_amountToRefill = ''10000'', pr_profit = ''50'',
          pr_isProfitable = True\<rparr>],
      rs_exerciseParams =
        Some \<lparr>ep_optionId = ''42'', ep_swapper = [''0xswapper''], ep_swapData = [samplePacked],
              ep_liquidityToExercise = [''1000000'']\<rparr>\<rparr>"

definition sampleStateAfter :: calcState where
  "sampleStateAfter =
     \<lparr>profitabilityCache = [generateProfitabilityCacheKey sampleRequest \<mapsto> (1010, sampleResponse)],
      poolMarketInfoCache = [generatePoolMarketCacheKey 8453 ''0xmarket'' ''0xmarket'' \<mapsto> sampleInfo],
      networkLog = [MulticallPoolData ''0xmarket'' ''0xmarket'', MulticallQuotes [sampleQuote]]\<rparr>"

text \<open>The same position with a sub-position of liquidity 0 in front.\<close>

definition zeroFirstRequest :: GetRatesRequest where
  "zeroFirstRequest =
     sampleRequest\<lparr>rq_internalOptions :=
       [internalOptionLiteral ''-100'' ''100'' ''0'',
        internalOptionLiteral ''-100'' ''100'' ''1000000'']\<rparr>"

text \<open>The same position with two sub-positions of liquidity 1000000.\<close>

definition twoRequest :: GetRatesRequest where
  "twoRequest =
     sampleRequest\<lparr>rq_internalOptions :=
       [internalOptionLiteral ''-100'' ''100'' ''1000000'',
        internalOptionLiteral ''-100'' ''100'' ''1000000'']\<rparr>"

text \<open>Entries of the two loops on the sample inputs, an environment whose quoter fails
  for the first of two requests, and one whose pool multicall fails for token1.\<close>

definition sampleData :: "nat \<Rightarrow> optionData" where
  "sampleData i =
     \<lparr>od_index = i, od_liquidityAvailable = 1000000, od_amountLocked = 10000,
      od_amountToRefill = 10000, od_skipQuote = False\<rparr>"

definition skippedData :: "nat \<Rightarrow> optionData" where
  "skippedData i =
     \<lparr>od_index = i, od_liquidityAvailable = 0, od_amountLocked = 0,
      od_amountToRefill = 0, od_skipQuote = True\<rparr>"

definition quoteFailureEnv :: env where
  "quoteFailureEnv =
     sampleEnv\<lparr>multicallQuotes := (\<lambda>qs. Inr [Failure RpcError, Success (10050, 0, 0, 0)])\<rparr>"

definition poolFailureEnv :: env where
  "poolFailureEnv =
     sampleEnv\<lparr>multicallPoolData :=
       (\<lambda>pool market. Inr (samplePoolData\<lparr>pd_token1 := Failure RpcError\<rparr>))\<rparr>"





text \<open>The sample request with the properties of its sub-position object in another
  order, and the environment two seconds later.\<close>

definition reorderedRequest :: GetRatesRequest where
  "reorderedRequest =
     sampleRequest\<lparr>rq_internalOptions :=
       [[(''liquidity'', ''1000000''), (''tickLower'', ''-100''), (''tickUpper'', ''100'')]]\<rparr>"

definition laterEnv :: env where
  "laterEnv = sampleEnv\<lparr>dateNowCheck := 3000, dateNowStore := 3010\<rparr>"

definition sampleMetaState :: calcState where
  "sampleMetaState =
     \<lparr>profitabilityCache = Map.empty,
      poolMarketInfoCache = [generatePoolMarketCacheKey 8453 ''0xmarket'' ''0xmarket'' \<mapsto> sampleInfo],
      networkLog = [MulticallPoolData ''0xmarket'' ''0xmarket'']\<rparr>"

definition sampleDetail :: "nat \<Rightarrow> ProfitabilityResult" where
  "sampleDetail i =
     \<lparr>pr_index = i, pr_liquidityAvailable = ''1000000'', pr_amountLocked = ''10000'',
      pr_quotedAmountOut = ''10050'', pr_amountToRefill = ''10000'', pr_profit = ''50'',
      pr_isProfitable = True\<rparr>"

definition zeroDetail :: "nat \<Rightarrow> ProfitabilityResult" where
  "zeroDetail i =
     \<lparr>pr_index = i, pr_liquidityAvailable = ''0'', pr_amountLocked = ''0'',
      pr_quotedAmountOut = ''0'', pr_amountToRefill = ''0'', pr_profit = ''0'',
      pr_isProfitable = False\<rparr>"

definition failedQuoteDetail :: "nat \<Rightarrow> ProfitabilityResult" where
  "failedQuoteDetail i =
     \<lparr>pr_index = i, pr_liquidityAvailable = ''1000000'', pr_amountLocked = ''10000'',
      pr_quotedAmountOut = ''0'', pr_amountToRefill = ''10000'', pr_profit = ''0'',
      pr_isProfitable = False\<rparr>"

definition zeroFirstResponse :: GetRatesResponse where
  "zeroFirstResponse =
     \<lparr>rs_tokenId = ''42'', rs_totalProfit = ''50'', rs_isProfitable = True,
      rs_details = [zeroDetail 0, sampleDetail (Suc 0)],
      rs_exerciseParams =
        Some \<lparr>ep_optionId = ''42'', ep_swapper = [''0xswapper'', ''0xswapper''],
              ep_swapData = [samplePacked, samplePacked],
              ep_liquidityToExercise = [''0'', ''1000000'']\<rparr>\<rparr>"

definition quoteFailureResponse :: GetRatesResponse where
  "quoteFailureResponse = zeroFirstResponse\<lparr>rs_details := [failedQuoteDetail 0, sampleDetail (Suc 0)]\<rparr>"

text \<open>An engine that is not running; a schedule whose first pass throws and during whose
  third pass \<^verbatim>\<open>stop()\<close> is called; a schedule whose every pass throws and that never
  stops.\<close>

definition stoppedEngine :: engineState where
  "stoppedEngine = \<lparr>isRunning = False, cacheCleanupInterval = False, logger = [], passes = 0\<rparr>"

definition sampleSchedule :: "nat \<Rightarrow> pass" where
  "sampleSchedule n = \<lparr>thrown = (if n = 0 then Some RpcError else None), stopCalled = (n = 2)\<rparr>"

definition failingSchedule :: "nat \<Rightarrow> pass" where
  "failingSchedule n = \<lparr>thrown = Some RpcError, stopCalled = False\<rparr>"

section \<open>Settlement liquidity\<close>

lemma settleLiquidity_Inr:
  "settleLiquidity x = Inr v \<longleftrightarrow>
     (\<exists>a e s. BigInt (io_liquidityAtOpen x) = Inr a \<and> BigInt (io_liquidityExercised x) = Inr e \<and>
        BigInt (io_liquiditySettled x) = Inr s \<and> v = a - e - s)"
  by (auto simp: settleLiquidity_def split: sum.splits)

lemma liquidityToSettle_Inr:
  "liquidityToSettle ios = Inr ls \<Longrightarrow>
     length ls = length ios \<and> (\<forall>i<length ios. settleLiquidity (ios ! i) = Inr (ls ! i))"
proof (induction ios arbitrary: ls)
  case Nil
  then show ?case by simp
next
  case (Cons x xs)
  then show ?case
    by (auto split: sum.splits simp: nth_Cons split: nat.splits)
qed

text \<open>
  Claim C1, as stated, fails: a sub-position opened with liquidity 5 of which 7 is
  recorded as exercised gets the settlement liquidity -2 in the settleOption parameters;
  the subtraction is not clamped.
\<close>

theorem C1_negative_settlement_counterexample:
  "liquidityToSettle
     [\<lparr>io_handler = ''0xh'', io_pool = ''0xp'', io_hook = ''0xk'', io_liquidityAtOpen = ''5'',
       io_liquidityExercised = ''7'', io_liquiditySettled = ''0'', io_liquidityAtLive = ''0'',
       io_tickLower = ''-100'', io_tickUpper = ''100'', io_strike = ''1'', io_index = ''0''\<rparr>]
   = Inr [- 2]"
  by code_simp

text \<open>
  Claim C1, amended: when \<^verbatim>\<open>handleExpiredOption\<close> builds the settleOption parameters,
  there is one settlement liquidity per sub-position, and each is exactly liquidityAtOpen
  minus liquidityExercised minus liquiditySettled; it is non-negative if and only if
  exercised plus settled does not exceed the liquidity at open.
\<close>

theorem C1_settlement_liquidity_is_the_difference:
  assumes "liquidityToSettle ios = Inr ls" and "i < length ios"
  shows "length ls = length ios \<and>
         (\<exists>a e s. BigInt (io_liquidityAtOpen (ios ! i)) = Inr a \<and>
                  BigInt (io_liquidityExercised (ios ! i)) = Inr e \<and>
                  BigInt (io_liquiditySettled (ios ! i)) = Inr s \<and>
                  ls ! i = a - e - s \<and> (0 \<le> ls ! i \<longleftrightarrow> e + s \<le> a))"
proof -
  from liquidityToSettle_Inr [OF assms(1)] assms(2)
  have len: "length ls = length ios" and st: "settleLiquidity (ios ! i) = Inr (ls ! i)"
    by auto
  from st obtain a e s where
    "BigInt (io_liquidityAtOpen (ios ! i)) = Inr a"
    "BigInt (io_liquidityExercised (ios ! i)) = Inr e"
    "BigInt (io_liquiditySettled (ios ! i)) = Inr s"
    "ls ! i = a - e - s"
    unfolding settleLiquidity_Inr by blast
  then show ?thesis using len by auto
qed

theorem C1_settlement_liquidity_witness:
  "\<exists>a e s. BigInt ''1000'' = Inr a \<and> BigInt ''300'' = Inr e \<and> BigInt ''200'' = Inr s \<and>
     [500 :: int] ! 0 = a - e - s \<and> (0 \<le> [500 :: int] ! 0 \<longleftrightarrow> e + s \<le> a)"
proof -
  let ?io = "\<lparr>io_handler = ''0xh'', io_pool = ''0xp'', io_hook = ''0xk'',
       io_liquidityAtOpen = ''1000'', io_liquidityExercised = ''300'',
       io_liquiditySettled = ''200'', io_liquidityAtLive = ''500'',
       io_tickLower = ''-100'', io_tickUpper = ''100'', io_strike = ''1'', io_index = ''0''\<rparr>"
  have run: "liquidityToSettle [?io] = Inr [500]"
    by code_simp
  have "(0::nat) < length [?io]" by simp
  from C1_settlement_liquidity_is_the_difference [OF run this]
  show ?thesis by simp
qed

section \<open>Decimal rendering and parsing\<close>

lemma digitChar_code: "d < 10 \<Longrightarrow> (of_char (digitChar d) :: nat) = 48 + d"
  by (simp add: digitChar_def)

lemma digitValue_digitChar: "d < 10 \<Longrightarrow> digitValue (digitChar d) = Some d"
  by (simp add: digitValue_def digitChar_code)

lemma digitChar_not_dash: "d < 10 \<Longrightarrow> digitChar d \<noteq> CHR ''-''"
proof
  assume "d < 10" "digitChar d = CHR ''-''"
  then have "(of_char (digitChar d) :: nat) = of_char (CHR ''-'')" by simp
  with \<open>d < 10\<close> show False by (simp add: digitChar_code)
qed

lemma digitsValue_append:
  "digitsValue b (xs @ ys) acc =
     (case digitsValue b xs acc of None \<Rightarrow> None | Some a \<Rightarrow> digitsValue b ys a)"
  by (induction xs arbitrary: acc) (auto split: option.splits)

lemma digitsValue_natToString: "digitsValue 10 (natToString n) 0 = Some n"
proof (induction n rule: natToString.induct)
  case (1 n)
  show ?case
  proof (cases "n < 10")
    case True
    then show ?thesis
      by (subst natToString.simps) (simp add: digitValue_digitChar)
  next
    case False
    with 1 have "digitsValue 10 (natToString (n div 10)) 0 = Some (n div 10)" by simp
    with False show ?thesis
      by (subst natToString.simps) (simp add: digitsValue_append digitValue_digitChar)
  qed
qed

lemma natToString_inj: "natToString n = natToString m \<Longrightarrow> n = m"
  by (metis digitsValue_natToString option.inject)

lemma natToString_no_dash: "CHR ''-'' \<notin> set (natToString n)"
proof (induction n rule: natToString.induct)
  case (1 n)
  show ?case
  proof (cases "n < 10")
    case True
    then show ?thesis
      by (subst natToString.simps) (simp add: digitChar_not_dash [symmetric])
  next
    case False
    with 1 have "CHR ''-'' \<notin> set (natToString (n div 10))" by simp
    with False show ?thesis
      using digitChar_not_dash [of "n mod 10"]
      by (subst natToString.simps) auto
  qed
qed

lemma natToString_nonempty: "natToString n \<noteq> []"
  by (subst natToString.simps) simp


lemma digitChar_numeral:
  "digitChar 0 = CHR ''0''" "digitChar 1 = CHR ''1''" "digitChar (Suc 0) = CHR ''1''"
  "digitChar 2 = CHR ''2''" "digitChar 3 = CHR ''3''" "digitChar 4 = CHR ''4''"
  "digitChar 5 = CHR ''5''" "digitChar 6 = CHR ''6''" "digitChar 7 = CHR ''7''"
  "digitChar 8 = CHR ''8''" "digitChar 9 = CHR ''9''"
  by code_simp+

lemmas eval_prims =
  toString_def natToString.simps digitChar_numeral BigInt_def trim_def isWhiteSpace_def
  parseDigits_def digitValue_def parseInt_def

lemmas eval_range =
  rangeAmounts_def sqrtRatioOfTick_def getAmount0Delta_def getAmount1Delta_def
  mulDivRoundingUp_def Q96_def signed_divide_int_def signed_modulo_int_def Let_def

lemma internalOptionLiteral_sel:
  "rio_tickLower (internalOptionLiteral tickLower tickUpper liquidity) = tickLower"
  "rio_tickUpper (internalOptionLiteral tickLower tickUpper liquidity) = tickUpper"
  "rio_liquidity (internalOptionLiteral tickLower tickUpper liquidity) = liquidity"
  by (simp_all add: internalOptionLiteral_def rio_tickLower_def rio_tickUpper_def
        rio_liquidity_def getProperty_def)


section \<open>JSON rendering is injective\<close>

lemma of_char_nat_eq_iff: "(of_char c :: nat) = of_char c' \<longleftrightarrow> c = c'"
  by (metis char_of_char)

lemma of_char_same: "(of_char c :: nat) = n \<Longrightarrow> of_char c' = n \<Longrightarrow> c = c'"
  using of_char_nat_eq_iff by metis

lemma hexDigit_code: "d < 16 \<Longrightarrow> (of_char (hexDigit d) :: nat) = (if d < 10 then 48 + d else 87 + d)"
  by (simp add: hexDigit_def)

lemma hexDigit_inj: 
  assumes "d < 16" "d' < 16" "hexDigit d = hexDigit d'" shows "d = d'"
proof -
  have "(if d < 10 then 48 + d else 87 + d) = (if d' < 10 then 48 + d' else 87 + d')"
    using hexDigit_code [OF assms(1)] hexDigit_code [OF assms(2)] assms(3) by metis
  with assms show ?thesis by (simp split: if_splits)
qed

lemma hex_pair_inj:
  assumes "(of_char c :: nat) < 32" "(of_char c' :: nat) < 32"
    "hexDigit (of_char c div 16) = hexDigit (of_char c' div 16)"
    "hexDigit (of_char c mod 16) = hexDigit (of_char c' mod 16)"
  shows "c = c'"
proof -
  have "(of_char c :: nat) div 16 = of_char c' div 16"
    using assms by (intro hexDigit_inj) auto
  moreover have "(of_char c :: nat) mod 16 = of_char c' mod 16"
    using assms by (intro hexDigit_inj) auto
  ultimately have "(of_char c :: nat) = of_char c'"
    by (metis div_mult_mod_eq)
  then show ?thesis by (simp only: of_char_nat_eq_iff)
qed

lemma quoteJSONChar_prefix_inj:
  assumes "quoteJSONChar c @ X = quoteJSONChar c' @ X'"
  shows "c = c' \<and> X = X'"
  using assms
  apply (simp add: quoteJSONChar_def Let_def backslash_def dquote_def split: if_splits)
  apply (auto dest: of_char_same hex_pair_inj)
  done

lemma quoteJSONChar_not_dquote: "quoteJSONChar c @ X \<noteq> dquote # Y"
  by (auto simp add: quoteJSONChar_def Let_def backslash_def dquote_def split: if_splits)

lemma quoted_body_inj:
  "concat (map quoteJSONChar s) @ dquote # r = concat (map quoteJSONChar s') @ dquote # r'
   \<Longrightarrow> s = s' \<and> r = r'"
proof (induction s arbitrary: s')
  case Nil
  show ?case
  proof (cases s')
    case Nil
    with Nil.prems show ?thesis by simp
  next
    case (Cons c' cs')
    with Nil.prems have "quoteJSONChar c' @ (concat (map quoteJSONChar cs') @ dquote # r') = dquote # r"
      by simp
    with quoteJSONChar_not_dquote show ?thesis by blast
  qed
next
  case (Cons c cs)
  show ?case
  proof (cases s')
    case Nil
    with Cons.prems have "quoteJSONChar c @ (concat (map quoteJSONChar cs) @ dquote # r) = dquote # r'"
      by simp
    with quoteJSONChar_not_dquote show ?thesis by blast
  next
    case (Cons c' cs')
    with Cons.prems have "quoteJSONChar c @ (concat (map quoteJSONChar cs) @ dquote # r)
        = quoteJSONChar c' @ (concat (map quoteJSONChar cs') @ dquote # r')"
      by simp
    from quoteJSONChar_prefix_inj [OF this] Cons.IH [of cs'] Cons show ?thesis by simp
  qed
qed

lemma quoteJSONString_inj:
  "quoteJSONString s @ r = quoteJSONString s' @ r' \<Longrightarrow> s = s' \<and> r = r'"
  using quoted_body_inj [of s r s' r'] by (simp add: quoteJSONString_def)

lemma jsonProperty_inj:
  assumes "jsonProperty p @ r = jsonProperty q @ r'"
  shows "p = q \<and> r = r'"
proof -
  from assms
  have "quoteJSONString (fst p) @ (CHR '':'' # quoteJSONString (snd p) @ r) =
        quoteJSONString (fst q) @ (CHR '':'' # quoteJSONString (snd q) @ r')"
    by (simp add: jsonProperty_def)
  from quoteJSONString_inj [OF this]
  have 1: "fst p = fst q"
    and "quoteJSONString (snd p) @ r = quoteJSONString (snd q) @ r'"
    by simp_all
  from quoteJSONString_inj [OF this(2)]
  have "snd p = snd q" and "r = r'" by simp_all
  with 1 show ?thesis by (simp add: prod_eq_iff)
qed

lemma joinComma_Cons:
  "joinComma (x # xs) = x @ (if xs = [] then [] else '','' @ joinComma xs)"
  by (cases xs) simp_all

text \<open>A comma-separated list of items that all start with the character \<open>s\<close>, closed by a
  character \<open>e\<close> that is neither \<open>s\<close> nor the comma, determines its items.\<close>

lemma joinComma_inj:
  assumes inj: "\<And>x y r r'. f x @ r = f y @ r' \<Longrightarrow> x = y \<and> r = r'"
    and start: "\<And>x. \<exists>t. f x = s # t"
    and se: "s \<noteq> e" and ec: "e \<noteq> CHR '',''"
  shows "joinComma (map f xs) @ e # r = joinComma (map f ys) @ e # r' \<Longrightarrow> xs = ys \<and> r = r'"
proof (induction xs arbitrary: ys)
  case Nil
  show ?case
  proof (cases ys)
    case Nil
    with Nil.prems show ?thesis by simp
  next
    case (Cons y ys')
    obtain t where "f y = s # t" using start by blast
    with Cons Nil.prems se show ?thesis by (simp add: joinComma_Cons)
  qed
next
  case (Cons x xs)
  show ?case
  proof (cases ys)
    case Nil
    obtain t where "f x = s # t" using start by blast
    with Nil Cons.prems se show ?thesis by (simp add: joinComma_Cons)
  next
    case (Cons y ys')
    let ?tl = "\<lambda>zs r. (if zs = [] then [] else '','' @ joinComma (map f zs)) @ e # r"
    from Cons Cons.prems
    have "f x @ ?tl xs r = f y @ ?tl ys' r'"
      by (simp add: joinComma_Cons)
    from inj [OF this]
    have xy: "x = y" and tl: "?tl xs r = ?tl ys' r'" by simp_all
    have "xs = ys' \<and> r = r'"
    proof (cases "xs = []")
      case True
      with tl ec show ?thesis by (cases "ys' = []") auto
    next
      case False
      with tl ec have ne: "ys' \<noteq> []" by (cases "ys' = []") auto
      with False tl show ?thesis using Cons.IH [of ys'] by simp
    qed
    with xy Cons show ?thesis by simp
  qed
qed

lemma stringifyInternalOption_inj:
  assumes "stringifyInternalOption a @ r = stringifyInternalOption b @ r'"
  shows "a = b \<and> r = r'"
proof -
  have start: "\<And>x. \<exists>t. jsonProperty x = dquote # t"
    by (simp add: jsonProperty_def quoteJSONString_def)
  have "dquote \<noteq> CHR ''}''" by (simp add: dquote_def)
  from joinComma_inj [where f = jsonProperty, OF jsonProperty_inj start this, of a r b r'] assms
  show ?thesis by (simp add: stringifyInternalOption_def)
qed

lemma stringifyInternalOptions_inj:
  assumes "stringifyInternalOptions xs = stringifyInternalOptions ys"
  shows "xs = ys"
proof -
  have start: "\<And>x. \<exists>t. stringifyInternalOption x = CHR ''{'' # t"
    by (simp add: stringifyInternalOption_def)
  have "CHR ''{'' \<noteq> CHR '']''" by simp
  from joinComma_inj [where f = stringifyInternalOption, OF stringifyInternalOption_inj start this,
         of xs "[]" ys "[]"] assms
  show ?thesis by (simp add: stringifyInternalOptions_def)
qed

section \<open>The cache key\<close>

lemma split_at_separator:
  "c \<notin> set xs \<Longrightarrow> c \<notin> set ys \<Longrightarrow> xs @ c # r = ys @ c # r' \<Longrightarrow> xs = ys \<and> r = r'"
proof (induction xs arbitrary: ys)
  case Nil
  then show ?case by (cases ys) auto
next
  case (Cons x xs)
  then show ?case by (cases ys) auto
qed

lemma toString_prefix_inj:
  assumes "toString i @ CHR ''-'' # r = toString j @ CHR ''-'' # r'"
  shows "i = j \<and> r = r'"
proof -
  have hd_nat: "\<And>n. hd (natToString n) \<noteq> CHR ''-''"
    using natToString_no_dash natToString_nonempty by (metis hd_in_set)
  consider (nn) "i < 0" "j < 0" | (pp) "\<not> i < 0" "\<not> j < 0"
    | (np) "i < 0" "\<not> j < 0" | (pn) "\<not> i < 0" "j < 0"
    by blast
  then show ?thesis
  proof cases
    case nn
    with assms have "natToString (nat (- i)) @ CHR ''-'' # r = natToString (nat (- j)) @ CHR ''-'' # r'"
      by (simp add: toString_def)
    from split_at_separator [OF natToString_no_dash natToString_no_dash this]
    have "nat (- i) = nat (- j)" "r = r'" by (auto dest: natToString_inj)
    with nn show ?thesis by simp
  next
    case pp
    with assms have "natToString (nat i) @ CHR ''-'' # r = natToString (nat j) @ CHR ''-'' # r'"
      by (simp add: toString_def)
    from split_at_separator [OF natToString_no_dash natToString_no_dash this]
    have "nat i = nat j" "r = r'" by (auto dest: natToString_inj)
    with pp show ?thesis by simp
  next
    case np
    with assms have "CHR ''-'' # natToString (nat (- i)) @ CHR ''-'' # r = natToString (nat j) @ CHR ''-'' # r'"
      by (simp add: toString_def)
    then have "hd (natToString (nat j) @ CHR ''-'' # r') = CHR ''-''" by (metis list.sel(1))
    with hd_nat [of "nat j"] natToString_nonempty [of "nat j"] show ?thesis by simp
  next
    case pn
    with assms have "natToString (nat i) @ CHR ''-'' # r = CHR ''-'' # natToString (nat (- j)) @ CHR ''-'' # r'"
      by (simp add: toString_def)
    then have "hd (natToString (nat i) @ CHR ''-'' # r) = CHR ''-''" by (metis list.sel(1))
    with hd_nat [of "nat i"] natToString_nonempty [of "nat i"] show ?thesis by simp
  qed
qed

lemma boolToString_prefix_inj:
  "boolToString a @ CHR ''-'' # r = boolToString b @ CHR ''-'' # r' \<Longrightarrow> a = b \<and> r = r'"
  by (cases a; cases b) (simp_all add: boolToString_def)

lemma boolToString_inj: "boolToString a = boolToString b \<Longrightarrow> a = b"
  by (cases a; cases b) (simp_all add: boolToString_def)

lemma cacheKey_chainId:
  assumes "generateProfitabilityCacheKey r1 = generateProfitabilityCacheKey r2"
  shows "rq_chainId r1 = rq_chainId r2"
  using toString_prefix_inj [of "rq_chainId r1" _ "rq_chainId r2"] assms
  by (simp add: generateProfitabilityCacheKey_def)

text \<open>Two requests that differ in one field have different keys: whatever the strings
  hold, the rest of the key is the same on both sides.\<close>

lemma cacheKey_single_field:
  assumes changed:
    "r2 = r1\<lparr>rq_chainId := chainId\<rparr> \<or> r2 = r1\<lparr>rq_market := market\<rparr> \<or>
     r2 = r1\<lparr>rq_pool := pool\<rparr> \<or> r2 = r1\<lparr>rq_tokenId := tokenId\<rparr> \<or>
     r2 = r1\<lparr>rq_isCall := isCall\<rparr> \<or> r2 = r1\<lparr>rq_internalOptions := internalOptions\<rparr>"
    and distinct: "r2 \<noteq> r1"
  shows "generateProfitabilityCacheKey r2 \<noteq> generateProfitabilityCacheKey r1"
proof
  assume k: "generateProfitabilityCacheKey r2 = generateProfitabilityCacheKey r1"
  from changed consider
      (chain) "r2 = r1\<lparr>rq_chainId := chainId\<rparr>"
    | (market) "r2 = r1\<lparr>rq_market := market\<rparr>"
    | (pool) "r2 = r1\<lparr>rq_pool := pool\<rparr>"
    | (token) "r2 = r1\<lparr>rq_tokenId := tokenId\<rparr>"
    | (call) "r2 = r1\<lparr>rq_isCall := isCall\<rparr>"
    | (options) "r2 = r1\<lparr>rq_internalOptions := internalOptions\<rparr>"
    by blast
  then have "r2 = r1"
  proof cases
    case chain
    from cacheKey_chainId [OF k] chain show ?thesis by simp
  next
    case market
    with k have "market = rq_market r1"
      by (simp add: generateProfitabilityCacheKey_def)
    with market show ?thesis by simp
  next
    case pool
    with k have "pool = rq_pool r1"
      by (simp add: generateProfitabilityCacheKey_def)
    with pool show ?thesis by simp
  next
    case token
    with k have "tokenId = rq_tokenId r1"
      by (simp add: generateProfitabilityCacheKey_def)
    with token show ?thesis by simp
  next
    case call
    with k have "boolToString isCall = boolToString (rq_isCall r1)"
      by (simp add: generateProfitabilityCacheKey_def)
    from boolToString_inj [OF this] call show ?thesis by simp
  next
    case options
    with k have "stringifyInternalOptions internalOptions =
        stringifyInternalOptions (rq_internalOptions r1)"
      by (simp add: generateProfitabilityCacheKey_def)
    from stringifyInternalOptions_inj [OF this] options show ?thesis by simp
  qed
  with distinct show False by simp
qed

text \<open>
  Claim C5: two distinct requests of which the second is the first with one field changed
  - the chain id, the market, the pool, the position id, the call flag, or the list of
  sub-positions, which covers a reordering of the list and a change of the tickLower,
  tickUpper or liquidity of one sub-position - have different cache keys. Consequently the
  entry stored for the first is not the one looked up for the second: the second request
  is a cache hit or a miss exactly as it was without that entry, so it is never served
  the result cached for the first.
\<close>

theorem C5_cache_key_changes_with_any_field:
  assumes changed:
    "r2 = r1\<lparr>rq_chainId := chainId\<rparr> \<or> r2 = r1\<lparr>rq_market := market\<rparr> \<or>
     r2 = r1\<lparr>rq_pool := pool\<rparr> \<or> r2 = r1\<lparr>rq_tokenId := tokenId\<rparr> \<or>
     r2 = r1\<lparr>rq_isCall := isCall\<rparr> \<or> r2 = r1\<lparr>rq_internalOptions := internalOptions\<rparr>"
    and distinct: "r2 \<noteq> r1"
  shows "generateProfitabilityCacheKey r2 \<noteq> generateProfitabilityCacheKey r1 \<and>
         cacheHit env
           (st\<lparr>profitabilityCache :=
                 (profitabilityCache st)(generateProfitabilityCacheKey r1 \<mapsto> entry)\<rparr>) r2
         = cacheHit env st r2"
proof -
  have "generateProfitabilityCacheKey r2 \<noteq> generateProfitabilityCacheKey r1"
    using cacheKey_single_field [OF changed distinct] .
  then show ?thesis by (simp add: cacheHit_def)
qed

theorem C5_reordered_sub_positions_witness:
  "generateProfitabilityCacheKey
     (zeroFirstRequest\<lparr>rq_internalOptions := rev (rq_internalOptions zeroFirstRequest)\<rparr>) \<noteq>
     generateProfitabilityCacheKey zeroFirstRequest \<and>
   cacheHit sampleEnv
     (emptyState\<lparr>profitabilityCache :=
        (profitabilityCache emptyState)
          (generateProfitabilityCacheKey zeroFirstRequest \<mapsto> (1010, sampleResponse))\<rparr>)
     (zeroFirstRequest\<lparr>rq_internalOptions := rev (rq_internalOptions zeroFirstRequest)\<rparr>)
   = False"
proof -
  let ?r2 = "zeroFirstRequest\<lparr>rq_internalOptions := rev (rq_internalOptions zeroFirstRequest)\<rparr>"
  have ne: "?r2 \<noteq> zeroFirstRequest"
    by (simp add: zeroFirstRequest_def sampleRequest_def internalOptionLiteral_def)
  have changed: "?r2 = zeroFirstRequest\<lparr>rq_chainId := 0\<rparr> \<or> ?r2 = zeroFirstRequest\<lparr>rq_market := []\<rparr> \<or>
     ?r2 = zeroFirstRequest\<lparr>rq_pool := []\<rparr> \<or> ?r2 = zeroFirstRequest\<lparr>rq_tokenId := []\<rparr> \<or>
     ?r2 = zeroFirstRequest\<lparr>rq_isCall := False\<rparr> \<or>
     ?r2 = zeroFirstRequest\<lparr>rq_internalOptions := rev (rq_internalOptions zeroFirstRequest)\<rparr>"
    by simp
  have miss: "cacheHit sampleEnv emptyState ?r2 = False"
    by (simp add: cacheHit_def emptyState_def)
  from C5_cache_key_changes_with_any_field
         [OF changed ne, of sampleEnv emptyState "(1010, sampleResponse)"] miss
  show ?thesis by simp
qed

section \<open>The two loops of the evaluator\<close>

lemma scanOption_Inr:
  assumes "scanOption env info c q i io = Inr (pq, d)"
  shows "od_index d = i" and "od_skipQuote d \<longleftrightarrow> pq = None"
    and "\<And>l. BigInt (rio_liquidity io) = Inr l \<Longrightarrow> l \<le> 0 \<Longrightarrow>
           pq = None \<and> d = \<lparr>od_index = i, od_liquidityAvailable = 0, od_amountLocked = 0,
                  od_amountToRefill = 0, od_skipQuote = True\<rparr>"
    and "\<And>l. BigInt (rio_liquidity io) = Inr l \<Longrightarrow> 0 < l \<Longrightarrow>
           od_liquidityAvailable d = l \<and> \<not> od_skipQuote d \<and>
           rangeAmounts env (isAmount0 info c) (rio_tickLower io) (rio_tickUpper io) l
             = Inr (od_amountLocked d, od_amountToRefill d)"
  using assms
  by (auto simp: scanOption_def split: sum.splits if_splits prod.splits)

lemma scanOptions_Inr:
  "scanOptions env info c q ios i0 qrs0 ods0 = Inr (qrs, ods) \<Longrightarrow>
     \<exists>ods' qrs'. ods = ods0 @ ods' \<and> qrs = qrs0 @ qrs' \<and> length ods' = length ios \<and>
        length qrs' = length (filter (\<lambda>d. \<not> od_skipQuote d) ods') \<and>
        (\<forall>k<length ios. \<exists>pq. scanOption env info c q (i0 + k) (ios ! k) = Inr (pq, ods' ! k))"
proof (induction ios arbitrary: i0 qrs0 ods0)
  case Nil
  then show ?case by simp
next
  case (Cons io rest)
  from Cons.prems obtain pq d where
    step: "scanOption env info c q i0 io = Inr (pq, d)"
    and rec: "scanOptions env info c q rest (i0 + 1)
                (case pq of None \<Rightarrow> qrs0 | Some qr \<Rightarrow> qrs0 @ [qr]) (ods0 @ [d]) = Inr (qrs, ods)"
    by (auto split: sum.splits prod.splits)
  from Cons.IH [OF rec] obtain ods' qrs' where
    ih: "ods = (ods0 @ [d]) @ ods'"
        "qrs = (case pq of None \<Rightarrow> qrs0 | Some qr \<Rightarrow> qrs0 @ [qr]) @ qrs'"
        "length ods' = length rest"
        "length qrs' = length (filter (\<lambda>d. \<not> od_skipQuote d) ods')"
        "\<forall>k<length rest. \<exists>pq. scanOption env info c q (i0 + 1 + k) (rest ! k) = Inr (pq, ods' ! k)"
    by blast
  let ?ods = "d # ods'"
  let ?qrs = "(case pq of None \<Rightarrow> [] | Some qr \<Rightarrow> [qr]) @ qrs'"
  have 1: "ods = ods0 @ ?ods" using ih(1) by simp
  have 2: "qrs = qrs0 @ ?qrs" using ih(2) by (cases pq) simp_all
  have 3: "length ?ods = length (io # rest)" using ih(3) by simp
  have 4: "length ?qrs = length (filter (\<lambda>d. \<not> od_skipQuote d) ?ods)"
    using ih(4) scanOption_Inr(2) [OF step] by (cases pq) simp_all
  have 5: "\<forall>k<length (io # rest). \<exists>pq. scanOption env info c q (i0 + k) ((io # rest) ! k) = Inr (pq, ?ods ! k)"
  proof (intro allI impI)
    fix k assume "k < length (io # rest)"
    then show "\<exists>pq. scanOption env info c q (i0 + k) ((io # rest) ! k) = Inr (pq, ?ods ! k)"
      using step ih(5) by (cases k) auto
  qed
  from 1 2 3 4 5 show ?case by blast
qed

lemma quoteSlot_0: "quoteSlot ods 0 = 0"
  by (simp add: quoteSlot_def)

lemma quoteSlot_Suc:
  "quoteSlot (d # ods) (Suc k) = (if od_skipQuote d then 0 else 1) + quoteSlot ods k"
  by (simp add: quoteSlot_def)

lemma profitAdded_Suc:
  "profitAdded qres qi (d # ods) (Suc k) =
     profitAdded qres (qi + (if od_skipQuote d then 0 else 1)) ods k"
  by (simp add: profitAdded_def quoteSlot_Suc add.assoc cong: callResult.case_cong)

lemma detailAt_Suc:
  "detailAt qres qi (d # ods) (Suc k) =
     detailAt qres (qi + (if od_skipQuote d then 0 else 1)) ods k"
  by (simp add: detailAt_def quoteSlot_Suc add.assoc cong: callResult.case_cong)

lemma processResults_Inr:
  "processResults qres ods qi tp0 ds0 = Inr (tp, ds) \<Longrightarrow>
     \<exists>ds'. ds = ds0 @ ds' \<and> length ds' = length ods \<and>
        (\<forall>k<length ods. ds' ! k = detailAt qres qi ods k \<and>
            (\<not> od_skipQuote (ods ! k) \<longrightarrow> qi + quoteSlot ods k < length qres)) \<and>
        tp = tp0 + (\<Sum>k<length ods. profitAdded qres qi ods k)"
proof (induction ods arbitrary: qi tp0 ds0)
  case Nil
  then show ?case by simp
next
  case (Cons d rest)
  let ?step = "if od_skipQuote d then 0 else (1::nat)"
  let ?nd = "detailAt qres qi (d # rest) 0"
  let ?np = "profitAdded qres qi (d # rest) 0"
  from Cons.prems have inr: "od_skipQuote d \<or> qi < length qres"
    by (auto split: if_splits)
  from Cons.prems have rec:
    "processResults qres rest (qi + ?step) (tp0 + ?np) (ds0 @ [?nd]) = Inr (tp, ds)"
    by (auto simp: detailAt_def profitAdded_def quoteSlot_0 Let_def
             split: if_splits callResult.splits)
  from Cons.IH [OF rec] obtain ds' where
    ih: "ds = (ds0 @ [?nd]) @ ds'" "length ds' = length rest"
        "\<forall>k<length rest. ds' ! k = detailAt qres (qi + ?step) rest k \<and>
            (\<not> od_skipQuote (rest ! k) \<longrightarrow> qi + ?step + quoteSlot rest k < length qres)"
        "tp = tp0 + ?np + (\<Sum>k<length rest. profitAdded qres (qi + ?step) rest k)"
    by blast
  have 1: "ds = ds0 @ (?nd # ds')" using ih(1) by simp
  have 2: "length (?nd # ds') = length (d # rest)" using ih(2) by simp
  have 3: "\<forall>k<length (d # rest). (?nd # ds') ! k = detailAt qres qi (d # rest) k \<and>
            (\<not> od_skipQuote ((d # rest) ! k) \<longrightarrow> qi + quoteSlot (d # rest) k < length qres)"
  proof (intro allI impI)
    fix k assume k: "k < length (d # rest)"
    show "(?nd # ds') ! k = detailAt qres qi (d # rest) k \<and>
            (\<not> od_skipQuote ((d # rest) ! k) \<longrightarrow> qi + quoteSlot (d # rest) k < length qres)"
    proof (cases k)
      case 0
      with inr show ?thesis by (auto simp: quoteSlot_0)
    next
      case (Suc j)
      with k ih(3) show ?thesis
        by (auto simp: detailAt_Suc quoteSlot_Suc add.assoc)
    qed
  qed
  have 4: "tp = tp0 + (\<Sum>k<length (d # rest). profitAdded qres qi (d # rest) k)"
  proof -
    have "(\<Sum>k<length (d # rest). profitAdded qres qi (d # rest) k) =
          ?np + (\<Sum>k<length rest. profitAdded qres qi (d # rest) (Suc k))"
      by (simp only: length_Cons sum.lessThan_Suc_shift)
    then show ?thesis using ih(4) by (simp only: profitAdded_Suc)
  qed
  from 1 2 3 4 show ?case by blast
qed

section \<open>The evaluator and its result cache\<close>

lemma getPoolMarketInfo_cache:
  "getPoolMarketInfo env st c m p = (out, st1) \<Longrightarrow> profitabilityCache st1 = profitabilityCache st"
  by (auto simp: getPoolMarketInfo_def Let_def split: option.splits if_splits sum.splits prod.splits)

lemma executeQuotes_cache:
  "executeQuotes env st qrs = (out, st1) \<Longrightarrow> profitabilityCache st1 = profitabilityCache st"
  by (auto simp: executeQuotes_def split: if_splits)

lemma evaluate_cache:
  assumes "evaluate env st request = (out, st2)"
  shows "profitabilityCache st2 = profitabilityCache st"
proof -
  obtain o1 s1 where g: "getPoolMarketInfo env st (rq_chainId request) (rq_market request)
      (rq_pool request) = (o1, s1)" by (cases "getPoolMarketInfo env st (rq_chainId request) (rq_market request)
      (rq_pool request)")
  have s1: "profitabilityCache s1 = profitabilityCache st" using getPoolMarketInfo_cache [OF g] .
  from assms g have "st2 = st \<or> st2 = s1 \<or> (\<exists>qrs o2. executeQuotes env s1 qrs = (o2, st2))"
    by (auto simp: evaluate_def split: sum.splits prod.splits)
  with s1 show ?thesis by (auto dest: executeQuotes_cache)
qed

lemma evaluate_InrD:
  assumes "evaluate env st request = (Inr (info, tp, ds), st2)"
  shows "\<exists>st1 q qrs ods qres.
     getPoolMarketInfo env st (rq_chainId request) (rq_market request) (rq_pool request)
       = (Inr info, st1) \<and>
     getQuoterAddress env (rq_chainId request) = Inr q \<and>
     scanOptions env info (rq_isCall request) q (rq_internalOptions request) 0 [] [] = Inr (qrs, ods) \<and>
     executeQuotes env st1 qrs = (Inr qres, st2) \<and>
     processResults qres ods 0 0 [] = Inr (tp, ds)"
  using assms
  by (auto simp: evaluate_def split: sum.splits prod.splits)

lemma calculateTry_cases:
  assumes "calculateTry env st request key = (out, st')"
  shows "(\<exists>e. out = Inl e \<and> profitabilityCache st' = profitabilityCache st) \<or>
         (\<exists>info tp ds. evaluate env st request = (Inr (info, tp, ds), st') \<and>
            out = Inr (emptyParamsResponse request tp ds) \<and>
            ((\<exists>e. encodeSwapData env (pmi_poolFee info) (rq_internalOptions request) = Inl e) \<or>
             (\<exists>sd. encodeSwapData env (pmi_poolFee info) (rq_internalOptions request) = Inr sd \<and>
                   getSwapRouterSwapper env (rq_chainId request) = Inr []))) \<or>
         (\<exists>info tp ds st2 sd addr. evaluate env st request = (Inr (info, tp, ds), st2) \<and>
            encodeSwapData env (pmi_poolFee info) (rq_internalOptions request) = Inr sd \<and>
            getSwapRouterSwapper env (rq_chainId request) = Inr addr \<and> addr \<noteq> [] \<and>
            out = Inr (fullResponse request tp ds sd addr) \<and>
            st' = st2\<lparr>profitabilityCache :=
                       (profitabilityCache st2)(key \<mapsto> (dateNowStore env, fullResponse request tp ds sd addr))\<rparr>)"
proof -
  obtain o1 s2 where ev: "evaluate env st request = (o1, s2)"
    by (cases "evaluate env st request")
  note c = evaluate_cache [OF ev]
  from assms ev c show ?thesis
    by (auto simp: calculateTry_def Let_def split: sum.splits prod.splits if_splits)
qed

lemma calculate_hit:
  "cacheHit env st request \<Longrightarrow>
     calculateOptionProfitability env st request =
       (snd (the (profitabilityCache st (generateProfitabilityCacheKey request))), st)"
  by (auto simp: cacheHit_def calculateOptionProfitability_def Let_def split: option.splits)

lemma calculate_miss:
  "\<not> cacheHit env st request \<Longrightarrow>
     calculateOptionProfitability env st request =
       (case calculateTry env st request (generateProfitabilityCacheKey request) of
          (Inl e, st') \<Rightarrow> (errorResponse request, st')
        | (Inr res, st') \<Rightarrow> (res, st'))"
  by (auto simp: cacheHit_def calculateOptionProfitability_def Let_def split: option.splits)

text \<open>What a call does to the entry of its own key.\<close>

lemma calculate_entry:
  assumes "calculateOptionProfitability env st request = (res, st')"
  shows "(cacheHit env st request \<and> st' = st \<and>
           (\<exists>ts. profitabilityCache st (generateProfitabilityCacheKey request) = Some (ts, res))) \<or>
         (\<not> cacheHit env st request \<and> profitabilityCache st' = profitabilityCache st) \<or>
         (\<not> cacheHit env st request \<and>
            profitabilityCache st' (generateProfitabilityCacheKey request) = Some (dateNowStore env, res))"
proof (cases "cacheHit env st request")
  case True
  with assms calculate_hit [OF True] show ?thesis
    by (auto simp: cacheHit_def split: option.splits)
next
  case False
  obtain out s where t: "calculateTry env st request (generateProfitabilityCacheKey request) = (out, s)"
    by (cases "calculateTry env st request (generateProfitabilityCacheKey request)")
  from assms calculate_miss [OF False] t
  have r: "(res, st') = (case out of Inl e \<Rightarrow> (errorResponse request, s) | Inr r \<Rightarrow> (r, s))"
    by (simp split: sum.splits)
  from calculateTry_cases [OF t] evaluate_cache r False show ?thesis
    by (elim disjE exE conjE) (auto split: sum.splits)
qed


section \<open>The sample run\<close>

lemma hexDigit_numeral:
  "hexDigit 0 = CHR ''0''" "hexDigit (Suc 0) = CHR ''1''" "hexDigit 1 = CHR ''1''"
  "hexDigit 4 = CHR ''4''" "hexDigit 15 = CHR ''f''"
  by code_simp+

lemma sample_pack:
  "packFeeAndZero 500 = Inr samplePacked" "packFeeAndZero 16777216 = Inl EncodingError"
  by (simp_all add: packFeeAndZero_def samplePacked_def uint24Hex_def hexDigit_numeral)

lemma sample_range: "rangeAmounts sampleEnv True ''-100'' ''100'' 1000000 = Inr (10000, 10000)"
  by (simp add: sampleEnv_def sampleSqrtRatio_def eval_range eval_prims)

lemma sample_range': "rangeAmounts sampleEnv False ''-100'' ''100'' 1000000 = Inr (10000, 10000)"
  by (simp add: sampleEnv_def sampleSqrtRatio_def eval_range eval_prims)

lemma sample_big: "BigInt ''1000000'' = Inr 1000000" "BigInt ''0'' = Inr 0"
  by (simp_all add: eval_prims)

lemma sample_meta:
  "getPoolMarketInfo sampleEnv emptyState 8453 ''0xmarket'' ''0xmarket'' =
     (Inr sampleInfo,
      \<lparr>profitabilityCache = Map.empty,
       poolMarketInfoCache = [generatePoolMarketCacheKey 8453 ''0xmarket'' ''0xmarket'' \<mapsto> sampleInfo],
       networkLog = [MulticallPoolData ''0xmarket'' ''0xmarket'']\<rparr>)"
  by (simp add: getPoolMarketInfo_def emptyState_def sampleEnv_def samplePoolData_def
        sampleInfo_def anyFailure_def isFailure_def Let_def)

lemma sample_scan:
  "scanOptions sampleEnv sampleInfo True ''0xquoter'' (rq_internalOptions sampleRequest) 0 [] [] =
     Inr ([sampleQuote],
          [\<lparr>od_index = 0, od_liquidityAvailable = 1000000, od_amountLocked = 10000,
            od_amountToRefill = 10000, od_skipQuote = False\<rparr>])"
  by (simp add: sampleRequest_def scanOption_def internalOptionLiteral_sel sample_big
        sample_range' isAmount0_def sampleInfo_def assetToUse_def assetToGet_def sampleQuote_def)

lemma sample_od:
  "processResults [Success (10050, 0, 0, 0)]
     [\<lparr>od_index = 0, od_liquidityAvailable = 1000000, od_amountLocked = 10000,
            od_amountToRefill = 10000, od_skipQuote = False\<rparr>] 0 0 [] =
   Inr (50, rs_details sampleResponse)"
  by (simp add: sampleResponse_def quotedDetail_def Let_def eval_prims)

lemma sample_env_sel:
  "getRpcUrl sampleEnv c = Inr ''http://rpc''"
  "getQuoterAddress sampleEnv c = Inr ''0xquoter''"
  "getSwapRouterSwapper sampleEnv c = Inr ''0xswapper''"
  "multicallQuotes sampleEnv qs = Inr (map (\<lambda>q. Success (10050, 0, 0, 0)) qs)"
  "encodePacked sampleEnv 500 = Inr samplePacked"
  "dateNowStore sampleEnv = 1010" "dateNowCheck sampleEnv = 1000"
  by (simp_all add: sampleEnv_def sample_pack)

lemma sample_rq_sel:
  "rq_chainId sampleRequest = 8453" "rq_market sampleRequest = ''0xmarket''"
  "rq_pool sampleRequest = ''0xmarket''" "rq_isCall sampleRequest = True"
  "rq_tokenId sampleRequest = ''42''"
  "length (rq_internalOptions sampleRequest) = 1"
  by (simp_all add: sampleRequest_def)

lemma sample_evaluate:
  "evaluate sampleEnv emptyState sampleRequest =
     (Inr (sampleInfo, 50, rs_details sampleResponse),
      \<lparr>profitabilityCache = Map.empty,
       poolMarketInfoCache = [generatePoolMarketCacheKey 8453 ''0xmarket'' ''0xmarket'' \<mapsto> sampleInfo],
       networkLog = [MulticallPoolData ''0xmarket'' ''0xmarket'', MulticallQuotes [sampleQuote]]\<rparr>)"
  by (simp add: evaluate_def createPublicClientForChain_def sample_env_sel sample_rq_sel
        sample_meta sample_scan [unfolded sample_rq_sel] executeQuotes_def sample_od
      del: processResults.simps scanOptions.simps)

lemma sample_miss: "\<not> cacheHit env emptyState request"
  by (simp add: cacheHit_def emptyState_def)

lemma sample_try:
  "calculateTry sampleEnv emptyState sampleRequest (generateProfitabilityCacheKey sampleRequest) =
     (Inr sampleResponse, sampleStateAfter)"
proof -
  have enc: "encodeSwapData sampleEnv 500 (rq_internalOptions sampleRequest) = Inr [samplePacked]"
    by (simp add: sampleRequest_def sample_env_sel)
  have info: "pmi_poolFee sampleInfo = 500" by (simp add: sampleInfo_def)
  have full: "fullResponse sampleRequest 50 (rs_details sampleResponse) [samplePacked] ''0xswapper''
      = sampleResponse"
    by (simp add: fullResponse_def liquidityToExerciseOf_def sampleResponse_def sample_rq_sel
          eval_prims)
  show ?thesis
    by (simp add: calculateTry_def sample_evaluate sample_env_sel sample_rq_sel info enc full
          sampleStateAfter_def)
qed

lemma sample_run:
  "calculateOptionProfitability sampleEnv emptyState sampleRequest = (sampleResponse, sampleStateAfter)"
  by (simp add: calculate_miss [OF sample_miss] sample_try)


lemma frame_quotes_meta:
  "getPoolMarketInfo (env\<lparr>multicallQuotes := f\<rparr>) st c m p = getPoolMarketInfo env st c m p"
  by (simp add: getPoolMarketInfo_def Let_def
        cong: option.case_cong sum.case_cong prod.case_cong if_cong)

lemma frame_quotes_scanOption:
  "scanOption (env\<lparr>multicallQuotes := f\<rparr>) info c q i io = scanOption env info c q i io"
  by (simp add: scanOption_def rangeAmounts_def sqrtRatioOfTick_def
        cong: option.case_cong sum.case_cong prod.case_cong if_cong)

lemma frame_quotes_scan:
  "scanOptions (env\<lparr>multicallQuotes := f\<rparr>) info c q ios i qrs ods =
   scanOptions env info c q ios i qrs ods"
  by (induction ios arbitrary: i qrs ods)
     (simp_all add: frame_quotes_scanOption cong: sum.case_cong)


section \<open>The branches of the try block\<close>

lemma try_eval_Inl:
  "evaluate env st request = (Inl e, s) \<Longrightarrow> calculateTry env st request key = (Inl e, s)"
  by (simp add: calculateTry_def)

lemma try_encode_fail:
  "evaluate env st request = (Inr (info, tp, ds), s) \<Longrightarrow>
   encodeSwapData env (pmi_poolFee info) (rq_internalOptions request) = Inl e \<Longrightarrow>
   calculateTry env st request key = (Inr (emptyParamsResponse request tp ds), s)"
  by (simp add: calculateTry_def)

lemma try_swapper_throw:
  "evaluate env st request = (Inr (info, tp, ds), s) \<Longrightarrow>
   encodeSwapData env (pmi_poolFee info) (rq_internalOptions request) = Inr sd \<Longrightarrow>
   getSwapRouterSwapper env (rq_chainId request) = Inl e \<Longrightarrow>
   calculateTry env st request key = (Inl e, s)"
  by (simp add: calculateTry_def)

lemma try_no_swapper:
  "evaluate env st request = (Inr (info, tp, ds), s) \<Longrightarrow>
   encodeSwapData env (pmi_poolFee info) (rq_internalOptions request) = Inr sd \<Longrightarrow>
   getSwapRouterSwapper env (rq_chainId request) = Inr [] \<Longrightarrow>
   calculateTry env st request key = (Inr (emptyParamsResponse request tp ds), s)"
  by (simp add: calculateTry_def)

lemma try_full:
  "evaluate env st request = (Inr (info, tp, ds), s) \<Longrightarrow>
   encodeSwapData env (pmi_poolFee info) (rq_internalOptions request) = Inr sd \<Longrightarrow>
   getSwapRouterSwapper env (rq_chainId request) = Inr addr \<Longrightarrow> addr \<noteq> [] \<Longrightarrow>
   calculateTry env st request key =
     (Inr (fullResponse request tp ds sd addr),
      s\<lparr>profitabilityCache :=
          (profitabilityCache s)(key \<mapsto> (dateNowStore env, fullResponse request tp ds sd addr))\<rparr>)"
  by (simp add: calculateTry_def Let_def)


lemma calculate_miss_Inl:
  "\<not> cacheHit env st request \<Longrightarrow>
   calculateTry env st request (generateProfitabilityCacheKey request) = (Inl e, s) \<Longrightarrow>
   calculateOptionProfitability env st request = (errorResponse request, s)"
  by (simp add: calculate_miss)

lemma calculate_miss_Inr:
  "\<not> cacheHit env st request \<Longrightarrow>
   calculateTry env st request (generateProfitabilityCacheKey request) = (Inr r, s) \<Longrightarrow>
   calculateOptionProfitability env st request = (r, s)"
  by (simp add: calculate_miss)


lemma frame_encode_scanOption:
  "scanOption (env\<lparr>encodePacked := f\<rparr>) info c q i io = scanOption env info c q i io"
  by (simp add: scanOption_def rangeAmounts_def sqrtRatioOfTick_def
        cong: option.case_cong sum.case_cong prod.case_cong if_cong)

lemma frame_encode_scan:
  "scanOptions (env\<lparr>encodePacked := f\<rparr>) info c q ios i qrs ods =
   scanOptions env info c q ios i qrs ods"
  by (induction ios arbitrary: i qrs ods)
     (simp_all add: frame_encode_scanOption cong: sum.case_cong)

lemma frame_encode_meta:
  "getPoolMarketInfo (env\<lparr>encodePacked := f\<rparr>) st c m p = getPoolMarketInfo env st c m p"
  by (simp add: getPoolMarketInfo_def Let_def
        cong: option.case_cong sum.case_cong prod.case_cong if_cong)

lemma frame_encode_evaluate:
  "evaluate (env\<lparr>encodePacked := f\<rparr>) st request = evaluate env st request"
  by (simp add: evaluate_def createPublicClientForChain_def executeQuotes_def
        frame_encode_meta frame_encode_scan
        cong: option.case_cong sum.case_cong prod.case_cong if_cong)





section \<open>Runs of the sample request in other environments\<close>







lemma reordered_fields:
  "rq_chainId reorderedRequest = 8453" "rq_market reorderedRequest = ''0xmarket''"
  "rq_pool reorderedRequest = ''0xmarket''" "rq_isCall reorderedRequest = True"
  "rq_tokenId reorderedRequest = ''42''"
  "length (rq_internalOptions reorderedRequest) = 1"
  "map rio_tickLower (rq_internalOptions reorderedRequest) = [''-100'']"
  "map rio_tickUpper (rq_internalOptions reorderedRequest) = [''100'']"
  "map rio_liquidity (rq_internalOptions reorderedRequest) = [''1000000'']"
  by (simp_all add: reorderedRequest_def sampleRequest_def rio_tickLower_def rio_tickUpper_def
        rio_liquidity_def getProperty_def)

lemma reordered_key:
  "generateProfitabilityCacheKey reorderedRequest \<noteq> generateProfitabilityCacheKey sampleRequest"
proof -
  have ne: "reorderedRequest \<noteq> sampleRequest"
    by (simp add: reorderedRequest_def sampleRequest_def internalOptionLiteral_def)
  have "reorderedRequest = sampleRequest\<lparr>rq_chainId := 0\<rparr> \<or>
     reorderedRequest = sampleRequest\<lparr>rq_market := []\<rparr> \<or>
     reorderedRequest = sampleRequest\<lparr>rq_pool := []\<rparr> \<or>
     reorderedRequest = sampleRequest\<lparr>rq_tokenId := []\<rparr> \<or>
     reorderedRequest = sampleRequest\<lparr>rq_isCall := False\<rparr> \<or>
     reorderedRequest = sampleRequest\<lparr>rq_internalOptions :=
       [[(''liquidity'', ''1000000''), (''tickLower'', ''-100''), (''tickUpper'', ''100'')]]\<rparr>"
    by (simp add: reorderedRequest_def)
  from cacheKey_single_field [OF this ne] show ?thesis .
qed

lemma later_sel:
  "getRpcUrl laterEnv c = Inr ''http://rpc''"
  "getQuoterAddress laterEnv c = Inr ''0xquoter''"
  "getSwapRouterSwapper laterEnv c = Inr ''0xswapper''"
  "multicallQuotes laterEnv qs = Inr (map (\<lambda>q. Success (10050, 0, 0, 0)) qs)"
  "encodePacked laterEnv 500 = Inr samplePacked"
  "dateNowStore laterEnv = 3010" "dateNowCheck laterEnv = 3000"
  by (simp_all add: laterEnv_def sample_env_sel)

lemma later_range:
  "rangeAmounts laterEnv b lo hi l = rangeAmounts sampleEnv b lo hi l"
  by (simp add: laterEnv_def rangeAmounts_def sqrtRatioOfTick_def
        cong: option.case_cong sum.case_cong prod.case_cong if_cong)

lemma later_meta:
  "getPoolMarketInfo laterEnv sampleStateAfter 8453 ''0xmarket'' ''0xmarket'' =
     (Inr sampleInfo, sampleStateAfter)"
  by (simp add: getPoolMarketInfo_def sampleStateAfter_def Let_def)

lemma later_scan:
  "scanOptions laterEnv sampleInfo True ''0xquoter'' (rq_internalOptions reorderedRequest) 0 [] [] =
     Inr ([sampleQuote],
          [\<lparr>od_index = 0, od_liquidityAvailable = 1000000, od_amountLocked = 10000,
            od_amountToRefill = 10000, od_skipQuote = False\<rparr>])"
  by (simp add: reorderedRequest_def scanOption_def rio_tickLower_def rio_tickUpper_def
        rio_liquidity_def getProperty_def sample_big later_range sample_range' isAmount0_def
        sampleInfo_def assetToUse_def assetToGet_def sampleQuote_def)

lemma later_evaluate:
  "evaluate laterEnv sampleStateAfter reorderedRequest =
     (Inr (sampleInfo, 50, rs_details sampleResponse),
      sampleStateAfter\<lparr>networkLog := networkLog sampleStateAfter @ [MulticallQuotes [sampleQuote]]\<rparr>)"
  by (simp add: evaluate_def createPublicClientForChain_def later_sel reordered_fields
        later_meta later_scan [unfolded reordered_fields] executeQuotes_def sample_od
      del: processResults.simps scanOptions.simps)

lemma later_miss: "\<not> cacheHit laterEnv sampleStateAfter reorderedRequest"
  using reordered_key by (simp add: cacheHit_def sampleStateAfter_def)

lemma later_run:
  "calculateOptionProfitability laterEnv sampleStateAfter reorderedRequest =
     (sampleResponse,
      sampleStateAfter\<lparr>networkLog := networkLog sampleStateAfter @ [MulticallQuotes [sampleQuote]],
        profitabilityCache := (profitabilityCache sampleStateAfter)
          (generateProfitabilityCacheKey reorderedRequest \<mapsto> (3010, sampleResponse))\<rparr>)"
proof -
  have enc: "encodeSwapData laterEnv (pmi_poolFee sampleInfo) (rq_internalOptions reorderedRequest)
      = Inr [samplePacked]"
    by (simp add: reorderedRequest_def sampleInfo_def later_sel)
  have sw: "getSwapRouterSwapper laterEnv (rq_chainId reorderedRequest) = Inr ''0xswapper''"
    "''0xswapper'' \<noteq> []"
    by (simp_all add: later_sel)
  have full: "fullResponse reorderedRequest 50 (rs_details sampleResponse) [samplePacked] ''0xswapper''
      = sampleResponse"
    by (simp add: fullResponse_def liquidityToExerciseOf_def sampleResponse_def reordered_fields
          eval_prims)
  from calculate_miss_Inr [OF later_miss try_full [OF later_evaluate enc sw]] full
  show ?thesis by (simp add: later_sel)
qed

section \<open>Claims on the result cache and on failures\<close>

text \<open>
  Claim C4, as stated, fails: the cache key renders every sub-position object with
  \<^verbatim>\<open>JSON.stringify\<close>, which follows the order in which the object holds its properties.
  The request below has the fields of the sample request, with the sub-positions in the
  same order, and lists the liquidity of its sub-position first. Called two seconds after
  the sample request was evaluated and stored, it is not served the stored result: the
  quote batch is issued again.
\<close>

theorem C4_property_order_counterexample:
  "calculateOptionProfitability sampleEnv emptyState sampleRequest =
     (sampleResponse, sampleStateAfter) \<and>
   rq_chainId reorderedRequest = rq_chainId sampleRequest \<and>
   rq_market reorderedRequest = rq_market sampleRequest \<and>
   rq_pool reorderedRequest = rq_pool sampleRequest \<and>
   rq_tokenId reorderedRequest = rq_tokenId sampleRequest \<and>
   rq_isCall reorderedRequest = rq_isCall sampleRequest \<and>
   map rio_tickLower (rq_internalOptions reorderedRequest) =
     map rio_tickLower (rq_internalOptions sampleRequest) \<and>
   map rio_tickUpper (rq_internalOptions reorderedRequest) =
     map rio_tickUpper (rq_internalOptions sampleRequest) \<and>
   map rio_liquidity (rq_internalOptions reorderedRequest) =
     map rio_liquidity (rq_internalOptions sampleRequest) \<and>
   profitabilityCache sampleStateAfter (generateProfitabilityCacheKey sampleRequest) =
     Some (1010, sampleResponse) \<and>
   dateNowCheck laterEnv - 1010 < CACHE_TTL_MS \<and>
   networkLog (snd (calculateOptionProfitability laterEnv sampleStateAfter reorderedRequest)) =
     networkLog sampleStateAfter @ [MulticallQuotes [sampleQuote]]"
proof -
  have fields: "map rio_tickLower (rq_internalOptions sampleRequest) = [''-100'']"
    "map rio_tickUpper (rq_internalOptions sampleRequest) = [''100'']"
    "map rio_liquidity (rq_internalOptions sampleRequest) = [''1000000'']"
    by (simp_all add: sampleRequest_def internalOptionLiteral_sel)
  have entry: "profitabilityCache sampleStateAfter (generateProfitabilityCacheKey sampleRequest) =
     Some (1010, sampleResponse)"
    by (simp add: sampleStateAfter_def)
  have fresh: "dateNowCheck laterEnv - 1010 < CACHE_TTL_MS"
    by (simp add: later_sel CACHE_TTL_MS_def)
  show ?thesis
    by (simp add: sample_run later_run reordered_fields sample_rq_sel fields entry fresh)
qed

text \<open>
  Claim C4, amended: when a call of calculate is followed by a call with a request of the
  same cache key - a request with the same fields, the same sub-positions in the same
  order, and in every sub-position object the same properties in the same order - and the
  entry then found in the result cache under that key is younger than the TTL on the
  (non-decreasing) clock, the second call returns exactly the result of the first and
  leaves the state as it was: both caches and the record of network calls are unchanged,
  so neither the metadata fetch nor the quote batch is issued.
\<close>

theorem C4_second_call_served_from_cache:
  assumes first: "calculateOptionProfitability env1 st request1 = (res1, st1)"
    and same: "generateProfitabilityCacheKey request2 = generateProfitabilityCacheKey request1"
    and entry: "profitabilityCache st1 (generateProfitabilityCacheKey request1) = Some (timestamp, cached)"
    and fresh: "dateNowCheck env2 - timestamp < CACHE_TTL_MS"
    and clock: "dateNowCheck env1 \<le> dateNowCheck env2"
  shows "calculateOptionProfitability env2 st1 request2 = (res1, st1)"
proof -
  have hit2: "cacheHit env2 st1 request2"
    using entry fresh same by (simp add: cacheHit_def isCacheValid_def)
  have "cached = res1"
    using calculate_entry [OF first]
  proof (elim disjE conjE exE)
    fix ts assume "st1 = st" "profitabilityCache st (generateProfitabilityCacheKey request1) = Some (ts, res1)"
    with entry show ?thesis by simp
  next
    assume miss: "\<not> cacheHit env1 st request1" and same: "profitabilityCache st1 = profitabilityCache st"
    from miss same entry have "\<not> dateNowCheck env1 - timestamp < CACHE_TTL_MS"
      by (simp add: cacheHit_def isCacheValid_def)
    with fresh clock show ?thesis by simp
  next
    assume "profitabilityCache st1 (generateProfitabilityCacheKey request1) = Some (dateNowStore env1, res1)"
    with entry show ?thesis by simp
  qed
  with calculate_hit [OF hit2] entry same show ?thesis by simp
qed

theorem C4_second_call_witness:
  "calculateOptionProfitability
     (sampleEnv\<lparr>dateNowCheck := 4000, multicallQuotes := (\<lambda>qs. Inl RpcError)\<rparr>)
     sampleStateAfter sampleRequest = (sampleResponse, sampleStateAfter)"
proof -
  let ?env2 = "sampleEnv\<lparr>dateNowCheck := 4000, multicallQuotes := (\<lambda>qs. Inl RpcError)\<rparr>"
  have entry: "profitabilityCache sampleStateAfter (generateProfitabilityCacheKey sampleRequest)
      = Some (1010, sampleResponse)"
    by (simp add: sampleStateAfter_def)
  have fresh: "dateNowCheck ?env2 - 1010 < CACHE_TTL_MS"
    by (simp add: CACHE_TTL_MS_def)
  have clock: "dateNowCheck sampleEnv \<le> dateNowCheck ?env2"
    by (simp add: sample_env_sel)
  from C4_second_call_served_from_cache [OF sample_run refl entry fresh clock] show ?thesis .
qed

text \<open>
  Claim C3: calculate is a total function into responses, and a call that is not served
  from the cache answers every exception of its \<^verbatim>\<open>try\<close> block with the error response:
  totalProfit "0", isProfitable false, no details, empty swapper and swapData, and one "0"
  per sub-position of the request as liquidityToExercise. The exceptions are, in the
  order of the block: the RPC endpoint of the chain is not configured; the metadata
  resolution throws (a failed network call, or a failure reported in its batch); the
  quoter address is not configured; the scan of the sub-positions throws (a liquidity or
  a tick that does not parse, a range calculation that fails); the quote batch throws;
  the evaluation of the quote results throws; the swapper address is not configured.
\<close>

theorem C3_exception_yields_error_response:
  assumes miss: "\<not> cacheHit env st request"
    and thrown:
      "getRpcUrl env (rq_chainId request) = Inl e \<or>
       getPoolMarketInfo env st (rq_chainId request) (rq_market request) (rq_pool request)
         = (Inl e, st1) \<or>
       getPoolMarketInfo env st (rq_chainId request) (rq_market request) (rq_pool request)
         = (Inr info, st1) \<and>
       getQuoterAddress env (rq_chainId request) = Inl e \<or>
       getPoolMarketInfo env st (rq_chainId request) (rq_market request) (rq_pool request)
         = (Inr info, st1) \<and>
       getQuoterAddress env (rq_chainId request) = Inr quoter \<and>
       scanOptions env info (rq_isCall request) quoter (rq_internalOptions request) 0 [] [] = Inl e \<or>
       getPoolMarketInfo env st (rq_chainId request) (rq_market request) (rq_pool request)
         = (Inr info, st1) \<and>
       getQuoterAddress env (rq_chainId request) = Inr quoter \<and>
       scanOptions env info (rq_isCall request) quoter (rq_internalOptions request) 0 [] []
         = Inr (qrs, ods) \<and>
       qrs \<noteq> [] \<and> multicallQuotes env qrs = Inl e \<or>
       getPoolMarketInfo env st (rq_chainId request) (rq_market request) (rq_pool request)
         = (Inr info, st1) \<and>
       getQuoterAddress env (rq_chainId request) = Inr quoter \<and>
       scanOptions env info (rq_isCall request) quoter (rq_internalOptions request) 0 [] []
         = Inr (qrs, ods) \<and>
       executeQuotes env st1 qrs = (Inr qres, st2) \<and>
       processResults qres ods 0 0 [] = Inl e \<or>
       evaluate env st request = (Inr (info, tp, ds), st2) \<and>
       encodeSwapData env (pmi_poolFee info) (rq_internalOptions request) = Inr sd \<and>
       getSwapRouterSwapper env (rq_chainId request) = Inl e"
  shows "fst (calculateOptionProfitability env st request) =
           \<lparr>rs_tokenId = rq_tokenId request, rs_totalProfit = ''0'', rs_isProfitable = False,
            rs_details = [],
            rs_exerciseParams =
              Some \<lparr>ep_optionId = rq_tokenId request, ep_swapper = [], ep_swapData = [],
                    ep_liquidityToExercise =
                      replicate (length (rq_internalOptions request)) ''0''\<rparr>\<rparr>"
proof -
  let ?key = "generateProfitabilityCacheKey request"
  let ?meta = "getPoolMarketInfo env st (rq_chainId request) (rq_market request) (rq_pool request)"
  let ?scan = "\<lambda>q. scanOptions env info (rq_isCall request) q (rq_internalOptions request) 0 [] []"
  from thrown consider
      (client) "getRpcUrl env (rq_chainId request) = Inl e"
    | (meta) "?meta = (Inl e, st1)"
    | (quoter) "?meta = (Inr info, st1)" "getQuoterAddress env (rq_chainId request) = Inl e"
    | (scan) "?meta = (Inr info, st1)" "getQuoterAddress env (rq_chainId request) = Inr quoter"
        "?scan quoter = Inl e"
    | (batch) "?meta = (Inr info, st1)" "getQuoterAddress env (rq_chainId request) = Inr quoter"
        "?scan quoter = Inr (qrs, ods)" "qrs \<noteq> []" "multicallQuotes env qrs = Inl e"
    | (results) "?meta = (Inr info, st1)" "getQuoterAddress env (rq_chainId request) = Inr quoter"
        "?scan quoter = Inr (qrs, ods)" "executeQuotes env st1 qrs = (Inr qres, st2)"
        "processResults qres ods 0 0 [] = Inl e"
    | (swapper) "evaluate env st request = (Inr (info, tp, ds), st2)"
        "encodeSwapData env (pmi_poolFee info) (rq_internalOptions request) = Inr sd"
        "getSwapRouterSwapper env (rq_chainId request) = Inl e"
    by blast
  then have "\<exists>e' s. calculateTry env st request ?key = (Inl e', s)"
  proof cases
    case client
    then show ?thesis
      by (simp add: calculateTry_def evaluate_def createPublicClientForChain_def)
  next
    case meta
    then show ?thesis
      by (simp add: calculateTry_def evaluate_def createPublicClientForChain_def
            split: sum.splits)
  next
    case quoter
    then show ?thesis
      by (simp add: calculateTry_def evaluate_def createPublicClientForChain_def
            split: sum.splits)
  next
    case scan
    then show ?thesis
      by (simp add: calculateTry_def evaluate_def createPublicClientForChain_def
            split: sum.splits)
  next
    case batch
    then show ?thesis
      by (simp add: calculateTry_def evaluate_def createPublicClientForChain_def
            executeQuotes_def split: sum.splits)
  next
    case results
    then show ?thesis
      by (simp add: calculateTry_def evaluate_def createPublicClientForChain_def
            split: sum.splits)
  next
    case swapper
    from try_swapper_throw [OF this] show ?thesis by blast
  qed
  then obtain e' s where "calculateTry env st request ?key = (Inl e', s)" by blast
  from calculate_miss_Inl [OF miss this] show ?thesis by (simp add: errorResponse_def)
qed

theorem C3_quote_batch_throws_witness:
  "fst (calculateOptionProfitability (sampleEnv\<lparr>multicallQuotes := (\<lambda>qs. Inl RpcError)\<rparr>)
     emptyState sampleRequest) =
     \<lparr>rs_tokenId = ''42'', rs_totalProfit = ''0'', rs_isProfitable = False, rs_details = [],
      rs_exerciseParams =
        Some \<lparr>ep_optionId = ''42'', ep_swapper = [], ep_swapData = [],
              ep_liquidityToExercise = [''0'']\<rparr>\<rparr>"
proof -
  let ?env = "sampleEnv\<lparr>multicallQuotes := (\<lambda>qs. Inl RpcError)\<rparr>"
  have meta: "getPoolMarketInfo ?env emptyState (rq_chainId sampleRequest)
      (rq_market sampleRequest) (rq_pool sampleRequest) = (Inr sampleInfo, sampleMetaState)"
    by (simp add: frame_quotes_meta sample_rq_sel sample_meta sampleMetaState_def)
  have quoter: "getQuoterAddress ?env (rq_chainId sampleRequest) = Inr ''0xquoter''"
    by (simp add: sample_env_sel)
  have scan: "scanOptions ?env sampleInfo (rq_isCall sampleRequest) ''0xquoter''
      (rq_internalOptions sampleRequest) 0 [] [] = Inr ([sampleQuote], [sampleData 0])"
    by (simp add: frame_quotes_scan sample_rq_sel sample_scan sampleData_def
          del: scanOptions.simps)
  have batch: "[sampleQuote] \<noteq> []" "multicallQuotes ?env [sampleQuote] = Inl RpcError"
    by simp_all
  from C3_exception_yields_error_response
         [where env = ?env and st = emptyState and request = sampleRequest and e = RpcError
            and info = sampleInfo and ?st1.0 = sampleMetaState and quoter = "''0xquoter''"
            and qrs = "[sampleQuote]" and ods = "[sampleData 0]", OF sample_miss]
       meta quoter scan batch
  show ?thesis
    by (simp add: sample_rq_sel)
qed





section \<open>What a computed response reports\<close>


lemma scanOption_skip:
  "BigInt (rio_liquidity io) = Inr l \<Longrightarrow> l \<le> 0 \<Longrightarrow>
   scanOption env info c q i io =
     Inr (None, \<lparr>od_index = i, od_liquidityAvailable = 0, od_amountLocked = 0,
                 od_amountToRefill = 0, od_skipQuote = True\<rparr>)"
  by (simp add: scanOption_def)

lemma calculate_outcomes:
  assumes miss: "\<not> cacheHit env st request"
    and run: "calculateOptionProfitability env st request = (res, st')"
  shows "res = errorResponse request \<or>
         (\<exists>info tp ds st2. evaluate env st request = (Inr (info, tp, ds), st2) \<and>
            (res = emptyParamsResponse request tp ds \<or>
             (\<exists>sd addr. encodeSwapData env (pmi_poolFee info) (rq_internalOptions request) = Inr sd \<and>
                getSwapRouterSwapper env (rq_chainId request) = Inr addr \<and> addr \<noteq> [] \<and>
                res = fullResponse request tp ds sd addr)))"
proof (cases "evaluate env st request")
  case (Pair o1 s1)
  let ?key = "generateProfitabilityCacheKey request"
  show ?thesis
  proof (cases o1)
    case (Inl e1)
    from calculate_miss_Inl [OF miss try_eval_Inl [OF Pair [unfolded Inl]]] run
    show ?thesis by simp
  next
    case (Inr v)
    obtain info tp ds where v: "v = (info, tp, ds)" by (cases v)
    note ev = Pair [unfolded Inr v]
    show ?thesis
    proof (cases "encodeSwapData env (pmi_poolFee info) (rq_internalOptions request)")
      case (Inl e2)
      from calculate_miss_Inr [OF miss try_encode_fail [OF ev Inl]] run ev
      show ?thesis by auto
    next
      case sd: (Inr sd)
      show ?thesis
      proof (cases "getSwapRouterSwapper env (rq_chainId request)")
        case (Inl e3)
        from calculate_miss_Inl [OF miss try_swapper_throw [OF ev sd Inl]] run
        show ?thesis by simp
      next
        case (Inr addr)
        show ?thesis
        proof (cases "addr = []")
          case True
          from calculate_miss_Inr [OF miss try_no_swapper [OF ev sd Inr [unfolded True]]] run ev
          show ?thesis by auto
        next
          case False
          from calculate_miss_Inr [OF miss try_full [OF ev sd Inr False]] run ev sd Inr False
          show ?thesis by auto
        qed
      qed
    qed
  qed
qed

text \<open>A call that is not served from the cache and reports details has run both loops.\<close>

lemma calculate_reported:
  assumes miss: "\<not> cacheHit env st request"
    and run: "calculateOptionProfitability env st request = (res, st')"
    and some: "i < length (rs_details res)"
    and meta: "getPoolMarketInfo env st (rq_chainId request) (rq_market request) (rq_pool request)
                 = (Inr info, st1)"
    and quoter: "getQuoterAddress env (rq_chainId request) = Inr q"
    and scan: "scanOptions env info (rq_isCall request) q (rq_internalOptions request) 0 [] []
                 = Inr (qrs, ods)"
    and quotes: "executeQuotes env st1 qrs = (Inr qres, st2)"
  shows "length (rs_details res) = length ods"
    and "length ods = length (rq_internalOptions request)"
    and "rs_details res ! i = detailAt qres 0 ods i"
    and "\<exists>pq. scanOption env info (rq_isCall request) q i (rq_internalOptions request ! i)
            = Inr (pq, ods ! i)"
    and "rs_totalProfit res = toString (\<Sum>k<length ods. profitAdded qres 0 ods k)"
    and "rs_isProfitable res = (0 < (\<Sum>k<length ods. profitAdded qres 0 ods k))"
    and "\<exists>ep. rs_exerciseParams res = Some ep \<and>
           (ep_liquidityToExercise ep = replicate (length (rq_internalOptions request)) ''0'' \<or>
            (\<exists>sd addr. encodeSwapData env (pmi_poolFee info) (rq_internalOptions request) = Inr sd \<and>
                getSwapRouterSwapper env (rq_chainId request) = Inr addr \<and> addr \<noteq> [] \<and>
                ep_liquidityToExercise ep = liquidityToExerciseOf (rs_details res)))"
proof -
  from some have ne: "res \<noteq> errorResponse request" by (auto simp: errorResponse_def)
  with calculate_outcomes [OF miss run] obtain info' tp ds st2' where
    ev: "evaluate env st request = (Inr (info', tp, ds), st2')"
    and shape: "res = emptyParamsResponse request tp ds \<or>
             (\<exists>sd addr. encodeSwapData env (pmi_poolFee info') (rq_internalOptions request) = Inr sd \<and>
                getSwapRouterSwapper env (rq_chainId request) = Inr addr \<and> addr \<noteq> [] \<and>
                res = fullResponse request tp ds sd addr)"
    by blast
  from evaluate_InrD [OF ev] meta quoter scan quotes
  have info: "info' = info" and proc: "processResults qres ods 0 0 [] = Inr (tp, ds)"
    by auto
  from shape have det: "rs_details res = ds" and tot: "rs_totalProfit res = toString tp"
    and agg: "rs_isProfitable res = (0 < tp)"
    by (auto simp: emptyParamsResponse_def fullResponse_def)
  from processResults_Inr [OF proc]
  have len: "length ds = length ods"
    and each: "\<forall>k<length ods. ds ! k = detailAt qres 0 ods k"
    and sum: "tp = (\<Sum>k<length ods. profitAdded qres 0 ods k)"
    by auto
  from scanOptions_Inr [OF scan]
  have slen: "length ods = length (rq_internalOptions request)"
    and sc: "\<forall>k<length (rq_internalOptions request).
         \<exists>pq. scanOption env info (rq_isCall request) q k (rq_internalOptions request ! k)
            = Inr (pq, ods ! k)"
    by auto
  show "length (rs_details res) = length ods" using det len by simp
  show "length ods = length (rq_internalOptions request)" by (rule slen)
  show "rs_details res ! i = detailAt qres 0 ods i" using det len each some by simp
  show "\<exists>pq. scanOption env info (rq_isCall request) q i (rq_internalOptions request ! i)
            = Inr (pq, ods ! i)" using sc some det len slen by simp
  show "rs_totalProfit res = toString (\<Sum>k<length ods. profitAdded qres 0 ods k)"
    using tot sum by simp
  show "rs_isProfitable res = (0 < (\<Sum>k<length ods. profitAdded qres 0 ods k))"
    using agg sum by simp
  show "\<exists>ep. rs_exerciseParams res = Some ep \<and>
           (ep_liquidityToExercise ep = replicate (length (rq_internalOptions request)) ''0'' \<or>
            (\<exists>sd addr. encodeSwapData env (pmi_poolFee info) (rq_internalOptions request) = Inr sd \<and>
                getSwapRouterSwapper env (rq_chainId request) = Inr addr \<and> addr \<noteq> [] \<and>
                ep_liquidityToExercise ep = liquidityToExerciseOf (rs_details res)))"
    using shape info by (auto simp: emptyParamsResponse_def fullResponse_def)
qed

lemma getPoolMarketInfo_failure:
  assumes "poolMarketInfoCache st (generatePoolMarketCacheKey c m p) = None"
    and "m = p \<or> readPrimePool env m = Inr pp"
    and "multicallPoolData env p m = Inr batch" and "anyFailure batch"
  shows "\<exists>s. getPoolMarketInfo env st c m p = (Inl PoolDataError, s)"
  using assms by (auto simp: getPoolMarketInfo_def Let_def)

lemma evaluate_meta_Inl:
  assumes "getRpcUrl env (rq_chainId request) = Inr url"
    and "getPoolMarketInfo env st (rq_chainId request) (rq_market request) (rq_pool request) = (Inl e, s)"
  shows "evaluate env st request = (Inl e, s)"
  using assms by (simp add: evaluate_def createPublicClientForChain_def)


section \<open>Sample runs with two sub-positions\<close>

lemma sample_meta': "getPoolMarketInfo sampleEnv emptyState 8453 ''0xmarket'' ''0xmarket'' =
     (Inr sampleInfo, sampleMetaState)"
  by (simp add: sample_meta sampleMetaState_def)

lemma zero_rq_sel:
  "rq_chainId zeroFirstRequest = 8453" "rq_market zeroFirstRequest = ''0xmarket''"
  "rq_pool zeroFirstRequest = ''0xmarket''" "rq_isCall zeroFirstRequest = True"
  "rq_tokenId zeroFirstRequest = ''42''"
  "length (rq_internalOptions zeroFirstRequest) = 2"
  by (simp_all add: zeroFirstRequest_def sampleRequest_def)

lemma two_rq_sel:
  "rq_chainId twoRequest = 8453" "rq_market twoRequest = ''0xmarket''"
  "rq_pool twoRequest = ''0xmarket''" "rq_isCall twoRequest = True"
  "rq_tokenId twoRequest = ''42''"
  "length (rq_internalOptions twoRequest) = 2"
  by (simp_all add: twoRequest_def sampleRequest_def)

lemma sample_scanOption:
  "scanOption sampleEnv sampleInfo True ''0xquoter'' i
     (internalOptionLiteral ''-100'' ''100'' ''1000000'')
   = Inr (Some sampleQuote, sampleData i)"
  by (simp add: scanOption_def internalOptionLiteral_sel sample_big sample_range'
        isAmount0_def sampleInfo_def assetToUse_def assetToGet_def sampleQuote_def
        sampleData_def)

lemma zero_scanOption:
  "scanOption sampleEnv sampleInfo True ''0xquoter'' i
     (internalOptionLiteral ''-100'' ''100'' ''0'')
   = Inr (None, skippedData i)"
  by (simp add: scanOption_def internalOptionLiteral_sel sample_big skippedData_def)

lemma zero_scan:
  "scanOptions sampleEnv sampleInfo True ''0xquoter'' (rq_internalOptions zeroFirstRequest) 0 [] [] =
     Inr ([sampleQuote], [skippedData 0, sampleData (Suc 0)])"
  by (simp add: zeroFirstRequest_def sample_scanOption zero_scanOption)

lemma two_scan:
  "scanOptions sampleEnv sampleInfo True ''0xquoter'' (rq_internalOptions twoRequest) 0 [] [] =
     Inr ([sampleQuote, sampleQuote], [sampleData 0, sampleData (Suc 0)])"
  by (simp add: twoRequest_def sample_scanOption)

lemma sample_details:
  "quotedDetail (sampleData i) 10050 = sampleDetail i"
  "failedDetail (sampleData i) = failedQuoteDetail i"
  "skippedDetail (skippedData i) = zeroDetail i"
  by (simp_all add: quotedDetail_def failedDetail_def skippedDetail_def sampleData_def
        skippedData_def sampleDetail_def zeroDetail_def failedQuoteDetail_def Let_def eval_prims)

lemma sampleData_sel:
  "od_skipQuote (sampleData i) = False" "od_amountToRefill (sampleData i) = 10000"
  "od_liquidityAvailable (sampleData i) = 1000000" "od_skipQuote (skippedData i) = True"
  by (simp_all add: sampleData_def skippedData_def)

lemma zero_process:
  "processResults [Success (10050, 0, 0, 0)] [skippedData 0, sampleData (Suc 0)] 0 0 [] =
     Inr (50, [zeroDetail 0, sampleDetail (Suc 0)])"
  by (simp add: sampleData_sel sample_details Let_def)

lemma two_process:
  "processResults [Failure RpcError, Success (10050, 0, 0, 0)] [sampleData 0, sampleData (Suc 0)] 0 0 [] =
     Inr (50, [failedQuoteDetail 0, sampleDetail (Suc 0)])"
  by (simp add: sampleData_sel sample_details Let_def)

lemma zero_evaluate:
  "evaluate sampleEnv emptyState zeroFirstRequest =
     (Inr (sampleInfo, 50, [zeroDetail 0, sampleDetail (Suc 0)]),
      sampleMetaState\<lparr>networkLog := networkLog sampleMetaState @ [MulticallQuotes [sampleQuote]]\<rparr>)"
  by (simp add: evaluate_def createPublicClientForChain_def sample_env_sel zero_rq_sel
        sample_meta' zero_scan [unfolded zero_rq_sel] executeQuotes_def zero_process
      del: processResults.simps scanOptions.simps)

lemma two_evaluate:
  "evaluate quoteFailureEnv emptyState twoRequest =
     (Inr (sampleInfo, 50, [failedQuoteDetail 0, sampleDetail (Suc 0)]),
      sampleMetaState\<lparr>networkLog :=
        networkLog sampleMetaState @ [MulticallQuotes [sampleQuote, sampleQuote]]\<rparr>)"
  by (simp add: evaluate_def createPublicClientForChain_def quoteFailureEnv_def sample_env_sel
        two_rq_sel frame_quotes_meta frame_quotes_scan
        sample_meta' two_scan [unfolded two_rq_sel] executeQuotes_def two_process
      del: processResults.simps scanOptions.simps)

lemma replicate_two: "replicate 2 x = [x, x]"
  by (simp add: numeral_2_eq_2)

lemma sample_fee: "pmi_poolFee sampleInfo = 500"
  by (simp add: sampleInfo_def)

lemma zero_run:
  "calculateOptionProfitability sampleEnv emptyState zeroFirstRequest =
     (zeroFirstResponse,
      sampleMetaState\<lparr>networkLog := networkLog sampleMetaState @ [MulticallQuotes [sampleQuote]],
        profitabilityCache :=
          [generateProfitabilityCacheKey zeroFirstRequest \<mapsto> (1010, zeroFirstResponse)]\<rparr>)"
proof -
  have enc: "encodeSwapData sampleEnv 500 (rq_internalOptions zeroFirstRequest)
      = Inr [samplePacked, samplePacked]"
    by (simp add: zeroFirstRequest_def sample_env_sel)
  have full: "fullResponse zeroFirstRequest 50 [zeroDetail 0, sampleDetail (Suc 0)]
      [samplePacked, samplePacked] ''0xswapper'' = zeroFirstResponse"
    by (simp add: fullResponse_def liquidityToExerciseOf_def zeroFirstResponse_def zero_rq_sel
          zeroDetail_def sampleDetail_def eval_prims replicate_two)
  have "calculateTry sampleEnv emptyState zeroFirstRequest (generateProfitabilityCacheKey zeroFirstRequest)
     = (Inr zeroFirstResponse,
      sampleMetaState\<lparr>networkLog := networkLog sampleMetaState @ [MulticallQuotes [sampleQuote]],
        profitabilityCache :=
          [generateProfitabilityCacheKey zeroFirstRequest \<mapsto> (1010, zeroFirstResponse)]\<rparr>)"
    by (simp add: calculateTry_def zero_evaluate sample_env_sel zero_rq_sel sample_fee enc full
          sampleMetaState_def)
  then show ?thesis by (simp add: calculate_miss [OF sample_miss])
qed

lemma two_run:
  "calculateOptionProfitability quoteFailureEnv emptyState twoRequest =
     (quoteFailureResponse,
      sampleMetaState\<lparr>networkLog :=
          networkLog sampleMetaState @ [MulticallQuotes [sampleQuote, sampleQuote]],
        profitabilityCache :=
          [generateProfitabilityCacheKey twoRequest \<mapsto> (1010, quoteFailureResponse)]\<rparr>)"
proof -
  have sel: "\<And>c. getSwapRouterSwapper quoteFailureEnv c = Inr ''0xswapper''"
     "dateNowStore quoteFailureEnv = 1010"
     "encodePacked quoteFailureEnv 500 = Inr samplePacked"
    by (simp_all add: quoteFailureEnv_def sample_env_sel)
  have enc: "encodeSwapData quoteFailureEnv 500 (rq_internalOptions twoRequest)
      = Inr [samplePacked, samplePacked]"
    by (simp add: twoRequest_def sel)
  have full: "fullResponse twoRequest 50 [failedQuoteDetail 0, sampleDetail (Suc 0)]
      [samplePacked, samplePacked] ''0xswapper'' = quoteFailureResponse"
    by (simp add: fullResponse_def liquidityToExerciseOf_def zeroFirstResponse_def two_rq_sel
          quoteFailureResponse_def failedQuoteDetail_def sampleDetail_def eval_prims replicate_two)
  have "calculateTry quoteFailureEnv emptyState twoRequest (generateProfitabilityCacheKey twoRequest)
     = (Inr quoteFailureResponse,
      sampleMetaState\<lparr>networkLog :=
          networkLog sampleMetaState @ [MulticallQuotes [sampleQuote, sampleQuote]],
        profitabilityCache :=
          [generateProfitabilityCacheKey twoRequest \<mapsto> (1010, quoteFailureResponse)]\<rparr>)"
    by (simp add: calculateTry_def two_evaluate sel two_rq_sel sample_fee enc full
          sampleMetaState_def)
  then show ?thesis by (simp add: calculate_miss [OF sample_miss])
qed

lemma two_stages:
  "getPoolMarketInfo quoteFailureEnv emptyState 8453 ''0xmarket'' ''0xmarket''
     = (Inr sampleInfo, sampleMetaState)"
  "getQuoterAddress quoteFailureEnv 8453 = Inr ''0xquoter''"
  "scanOptions quoteFailureEnv sampleInfo True ''0xquoter'' (rq_internalOptions twoRequest) 0 [] []
     = Inr ([sampleQuote, sampleQuote], [sampleData 0, sampleData (Suc 0)])"
  "executeQuotes quoteFailureEnv sampleMetaState [sampleQuote, sampleQuote]
     = (Inr [Failure RpcError, Success (10050, 0, 0, 0)],
        sampleMetaState\<lparr>networkLog :=
          networkLog sampleMetaState @ [MulticallQuotes [sampleQuote, sampleQuote]]\<rparr>)"
  by (simp_all add: quoteFailureEnv_def frame_quotes_meta frame_quotes_scan sample_meta'
        sample_env_sel two_scan executeQuotes_def del: scanOptions.simps)


lemma pool_failure:
  "getRpcUrl poolFailureEnv 8453 = Inr ''http://rpc''"
  "multicallPoolData poolFailureEnv ''0xmarket'' ''0xmarket''
     = Inr (samplePoolData\<lparr>pd_token1 := Failure RpcError\<rparr>)"
  "anyFailure (samplePoolData\<lparr>pd_token1 := Failure RpcError\<rparr>)"
  "poolMarketInfoCache emptyState k = None"
  by (simp_all add: poolFailureEnv_def sample_env_sel anyFailure_def isFailure_def emptyState_def)


section \<open>Claims on profit, skipped sub-positions and failures\<close>






text \<open>
  Claim C6: for a sub-position whose liquidity is at most 0, the body of the first loop
  pushes no quote request and the all-zero entry marked as skipped, whatever the ticks of
  the sub-position and whatever the tick conversion of the environment would return or
  throw; the quote batch has exactly one entry per entry that is not skipped; and when a
  call that is not served from the cache reports a detail for it, that detail is
  liquidityAvailable "0", amountLocked "0", quotedAmountOut "0", amountToRefill "0",
  profit "0", isProfitable false.
\<close>

theorem C6_zero_liquidity_short_circuit:
  assumes i: "i < length (rq_internalOptions request)"
    and liq: "BigInt (rio_liquidity (rq_internalOptions request ! i)) = Inr l" "l \<le> 0"
  shows "scanOption env info (rq_isCall request) q i (rq_internalOptions request ! i) =
           Inr (None, \<lparr>od_index = i, od_liquidityAvailable = 0, od_amountLocked = 0,
                       od_amountToRefill = 0, od_skipQuote = True\<rparr>) \<and>
         (scanOptions env info (rq_isCall request) q (rq_internalOptions request) 0 [] []
            = Inr (qrs, ods) \<longrightarrow>
          od_skipQuote (ods ! i) \<and> length ods = length (rq_internalOptions request) \<and>
          length qrs = length (filter (\<lambda>d. \<not> od_skipQuote d) ods)) \<and>
         (\<not> cacheHit env st request \<and>
          calculateOptionProfitability env st request = (res, st') \<and>
          i < length (rs_details res) \<longrightarrow>
          rs_details res ! i =
            \<lparr>pr_index = i, pr_liquidityAvailable = ''0'', pr_amountLocked = ''0'',
             pr_quotedAmountOut = ''0'', pr_amountToRefill = ''0'', pr_profit = ''0'',
             pr_isProfitable = False\<rparr>)"
proof (intro conjI impI)
  let ?zero = "\<lparr>od_index = i, od_liquidityAvailable = 0, od_amountLocked = 0,
                       od_amountToRefill = 0, od_skipQuote = True\<rparr>"
  have step: "\<And>env info q. scanOption env info (rq_isCall request) q i (rq_internalOptions request ! i)
      = Inr (None, ?zero)"
    using scanOption_skip [OF liq] by simp
  show "scanOption env info (rq_isCall request) q i (rq_internalOptions request ! i) = Inr (None, ?zero)"
    by (rule step)
  {
    assume scan: "scanOptions env info (rq_isCall request) q (rq_internalOptions request) 0 [] []
            = Inr (qrs, ods)"
    from scanOptions_Inr [OF scan] i step
    have at: "ods ! i = ?zero" and len: "length ods = length (rq_internalOptions request)"
      and ql: "length qrs = length (filter (\<lambda>d. \<not> od_skipQuote d) ods)"
      by auto
    from at show "od_skipQuote (ods ! i)" by simp
    from len show "length ods = length (rq_internalOptions request)" .
    from ql show "length qrs = length (filter (\<lambda>d. \<not> od_skipQuote d) ods)" .
  }
  {
    assume a: "\<not> cacheHit env st request \<and>
          calculateOptionProfitability env st request = (res, st') \<and>
          i < length (rs_details res)"
    then have miss: "\<not> cacheHit env st request"
      and run: "calculateOptionProfitability env st request = (res, st')"
      and rep: "i < length (rs_details res)" by simp_all
    from calculate_outcomes [OF miss run] rep
    obtain info' tp ds s where ev: "evaluate env st request = (Inr (info', tp, ds), s)"
      by (auto simp: errorResponse_def)
    from evaluate_InrD [OF ev] obtain st1 q' qrs' ods' qres where
      meta: "getPoolMarketInfo env st (rq_chainId request) (rq_market request) (rq_pool request)
                 = (Inr info', st1)"
      and quoter: "getQuoterAddress env (rq_chainId request) = Inr q'"
      and scan: "scanOptions env info' (rq_isCall request) q' (rq_internalOptions request) 0 [] []
                 = Inr (qrs', ods')"
      and quotes: "executeQuotes env st1 qrs' = (Inr qres, s)"
      by blast
    note r = calculate_reported [OF miss run rep meta quoter scan quotes]
    from r(4) step have at: "ods' ! i = ?zero" by auto
    with r(3) show "rs_details res ! i =
            \<lparr>pr_index = i, pr_liquidityAvailable = ''0'', pr_amountLocked = ''0'',
             pr_quotedAmountOut = ''0'', pr_amountToRefill = ''0'', pr_profit = ''0'',
             pr_isProfitable = False\<rparr>"
      by (simp add: detailAt_def skippedDetail_def)
  }
qed

theorem C6_zero_first_witness:
  "scanOption sampleEnv sampleInfo True ''0xquoter'' 0
     (internalOptionLiteral ''-100'' ''100'' ''0'') =
     Inr (None, \<lparr>od_index = 0, od_liquidityAvailable = 0, od_amountLocked = 0,
                 od_amountToRefill = 0, od_skipQuote = True\<rparr>) \<and>
   length [sampleQuote] = length (filter (\<lambda>d. \<not> od_skipQuote d) [skippedData 0, sampleData 1]) \<and>
   rs_details (fst (calculateOptionProfitability sampleEnv emptyState zeroFirstRequest)) ! 0 =
     \<lparr>pr_index = 0, pr_liquidityAvailable = ''0'', pr_amountLocked = ''0'',
      pr_quotedAmountOut = ''0'', pr_amountToRefill = ''0'', pr_profit = ''0'',
      pr_isProfitable = False\<rparr>"
proof -
  let ?res = "fst (calculateOptionProfitability sampleEnv emptyState zeroFirstRequest)"
  have i: "0 < length (rq_internalOptions zeroFirstRequest)"
    by (simp add: zero_rq_sel)
  have liq: "BigInt (rio_liquidity (rq_internalOptions zeroFirstRequest ! 0)) = Inr 0" "(0::int) \<le> 0"
    by (simp_all add: zeroFirstRequest_def internalOptionLiteral_sel sample_big)
  have io0: "rq_internalOptions zeroFirstRequest ! 0 =
      (internalOptionLiteral ''-100'' ''100'' ''0'')"
    by (simp add: zeroFirstRequest_def)
  have scan: "scanOptions sampleEnv sampleInfo (rq_isCall zeroFirstRequest) ''0xquoter''
      (rq_internalOptions zeroFirstRequest) 0 [] [] = Inr ([sampleQuote], [skippedData 0, sampleData (Suc 0)])"
    by (simp add: zero_rq_sel zero_scan del: scanOptions.simps)
  have run: "\<not> cacheHit sampleEnv emptyState zeroFirstRequest \<and>
      calculateOptionProfitability sampleEnv emptyState zeroFirstRequest =
        (?res, snd (calculateOptionProfitability sampleEnv emptyState zeroFirstRequest)) \<and>
      0 < length (rs_details ?res)"
    by (simp add: sample_miss zero_run zeroFirstResponse_def)
  note t = C6_zero_liquidity_short_circuit [OF i liq, where env = sampleEnv and info = sampleInfo and q = "''0xquoter''"
      and qrs = "[sampleQuote]" and ods = "[skippedData 0, sampleData (Suc 0)]"
      and st = emptyState and res = ?res
      and st' = "snd (calculateOptionProfitability sampleEnv emptyState zeroFirstRequest)"]
  from t [THEN conjunct1] t [THEN conjunct2, THEN conjunct1, THEN mp, OF scan]
       t [THEN conjunct2, THEN conjunct2, THEN mp, OF run]
  show ?thesis
    by (simp add: zero_rq_sel sampleData_sel io0)
qed

text \<open>
  Claim C2, as stated, fails for the quote batch: the request has two sub-positions
  between the ticks -100 and 100, each with liquidity 1000000 and so, at the square-root
  prices of the library, with 10000 to refill; the quote batch reports a failure for the
  first sub-call and 10050 for the second, and calculate returns a result marked
  profitable (total profit 50) whose second liquidity-to-exercise entry is "1000000".
\<close>

theorem C2_partial_quote_failure_counterexample:
  "getSqrtRatioAtTick quoteFailureEnv (- 100) = Inr 78833030112140176575862854579 \<and>
   getSqrtRatioAtTick quoteFailureEnv 100 = Inr 79625275426524748796330556128 \<and>
   multicallQuotes quoteFailureEnv [sampleQuote, sampleQuote]
     = Inr [Failure RpcError, Success (10050, 0, 0, 0)] \<and>
   fst (calculateOptionProfitability quoteFailureEnv emptyState twoRequest) =
     \<lparr>rs_tokenId = ''42'', rs_totalProfit = ''50'', rs_isProfitable = True,
      rs_details =
        [\<lparr>pr_index = 0, pr_liquidityAvailable = ''1000000'', pr_amountLocked = ''10000'',
          pr_quotedAmountOut = ''0'', pr_amountToRefill = ''10000'', pr_profit = ''0'',
          pr_isProfitable = False\<rparr>,
         \<lparr>pr_index = 1, pr_liquidityAvailable = ''1000000'', pr_amountLocked = ''10000'',
          pr_quotedAmountOut = ''10050'', pr_amountToRefill = ''10000'', pr_profit = ''50'',
          pr_isProfitable = True\<rparr>],
      rs_exerciseParams =
        Some \<lparr>ep_optionId = ''42'', ep_swapper = [''0xswapper'', ''0xswapper''],
              ep_swapData = [samplePacked, samplePacked],
              ep_liquidityToExercise = [''0'', ''1000000'']\<rparr>\<rparr>"
proof -
  have env: "getSqrtRatioAtTick quoteFailureEnv (- 100) = Inr 78833030112140176575862854579"
    "getSqrtRatioAtTick quoteFailureEnv 100 = Inr 79625275426524748796330556128"
    "multicallQuotes quoteFailureEnv [sampleQuote, sampleQuote]
     = Inr [Failure RpcError, Success (10050, 0, 0, 0)]"
    by (simp_all add: quoteFailureEnv_def sampleEnv_def sampleSqrtRatio_def)
  then show ?thesis
    by (simp add: two_run quoteFailureResponse_def zeroFirstResponse_def failedQuoteDetail_def
          sampleDetail_def)
qed


text \<open>
  Claim C2, amended. If the metadata batch reports any failure, calculate returns the
  error response: isProfitable false, no details, every liquidity-to-exercise entry "0".
  If the quote batch reports a failure for the sub-call of a sub-position, that
  sub-position gets quotedAmountOut "0", profit "0", isProfitable false and the
  liquidity-to-exercise entry "0", and adds nothing to the total profit; the aggregate is
  the sum of the positive profits of the other sub-positions and is marked profitable if
  and only if that sum is positive.
\<close>

theorem C2_metadata_failure_and_failed_quote:
  assumes miss: "\<not> cacheHit env st request"
    and run: "calculateOptionProfitability env st request = (res, st')"
  shows "(getRpcUrl env (rq_chainId request) = Inr url \<and>
          poolMarketInfoCache st
            (generatePoolMarketCacheKey (rq_chainId request) (rq_market request) (rq_pool request)) = None \<and>
          (rq_market request = rq_pool request \<or> readPrimePool env (rq_market request) = Inr pp) \<and>
          multicallPoolData env (rq_pool request) (rq_market request) = Inr batch \<and>
          anyFailure batch \<longrightarrow>
          res = \<lparr>rs_tokenId = rq_tokenId request, rs_totalProfit = ''0'', rs_isProfitable = False,
                  rs_details = [],
                  rs_exerciseParams =
                    Some \<lparr>ep_optionId = rq_tokenId request, ep_swapper = [], ep_swapData = [],
                          ep_liquidityToExercise =
                            replicate (length (rq_internalOptions request)) ''0''\<rparr>\<rparr>) \<and>
         (getPoolMarketInfo env st (rq_chainId request) (rq_market request) (rq_pool request)
            = (Inr info, st1) \<and>
          getQuoterAddress env (rq_chainId request) = Inr q \<and>
          scanOptions env info (rq_isCall request) q (rq_internalOptions request) 0 [] []
            = Inr (qrs, ods) \<and>
          executeQuotes env st1 qrs = (Inr qres, st2) \<and>
          i < length (rs_details res) \<and>
          \<not> od_skipQuote (ods ! i) \<and> qres ! quoteSlot ods i = Failure err \<longrightarrow>
          rs_details res ! i =
            \<lparr>pr_index = i,
             pr_liquidityAvailable = toString (od_liquidityAvailable (ods ! i)),
             pr_amountLocked = toString (od_amountLocked (ods ! i)),
             pr_quotedAmountOut = ''0'',
             pr_amountToRefill = toString (od_amountToRefill (ods ! i)),
             pr_profit = ''0'', pr_isProfitable = False\<rparr> \<and>
          profitAdded qres 0 ods i = 0 \<and>
          rs_totalProfit res = toString (\<Sum>k<length ods. profitAdded qres 0 ods k) \<and>
          rs_isProfitable res = (0 < (\<Sum>k<length ods. profitAdded qres 0 ods k)) \<and>
          (\<exists>ep. rs_exerciseParams res = Some ep \<and> ep_liquidityToExercise ep ! i = ''0''))"
proof (intro conjI impI)
  assume a: "getRpcUrl env (rq_chainId request) = Inr url \<and>
          poolMarketInfoCache st
            (generatePoolMarketCacheKey (rq_chainId request) (rq_market request) (rq_pool request)) = None \<and>
          (rq_market request = rq_pool request \<or> readPrimePool env (rq_market request) = Inr pp) \<and>
          multicallPoolData env (rq_pool request) (rq_market request) = Inr batch \<and>
          anyFailure batch"
  then obtain s where
    "getPoolMarketInfo env st (rq_chainId request) (rq_market request) (rq_pool request)
       = (Inl PoolDataError, s)"
    using getPoolMarketInfo_failure by blast
  with a have "evaluate env st request = (Inl PoolDataError, s)"
    by (simp add: evaluate_meta_Inl)
  from calculate_miss_Inl [OF miss try_eval_Inl [OF this]] run
  show "res = \<lparr>rs_tokenId = rq_tokenId request, rs_totalProfit = ''0'', rs_isProfitable = False,
                  rs_details = [],
                  rs_exerciseParams =
                    Some \<lparr>ep_optionId = rq_tokenId request, ep_swapper = [], ep_swapData = [],
                          ep_liquidityToExercise =
                            replicate (length (rq_internalOptions request)) ''0''\<rparr>\<rparr>"
    by (simp add: errorResponse_def)
next
  assume b: "getPoolMarketInfo env st (rq_chainId request) (rq_market request) (rq_pool request)
            = (Inr info, st1) \<and>
          getQuoterAddress env (rq_chainId request) = Inr q \<and>
          scanOptions env info (rq_isCall request) q (rq_internalOptions request) 0 [] []
            = Inr (qrs, ods) \<and>
          executeQuotes env st1 qrs = (Inr qres, st2) \<and>
          i < length (rs_details res) \<and>
          \<not> od_skipQuote (ods ! i) \<and> qres ! quoteSlot ods i = Failure err"
  then have meta: "getPoolMarketInfo env st (rq_chainId request) (rq_market request) (rq_pool request)
            = (Inr info, st1)"
    and quoter: "getQuoterAddress env (rq_chainId request) = Inr q"
    and scan: "scanOptions env info (rq_isCall request) q (rq_internalOptions request) 0 [] []
            = Inr (qrs, ods)"
    and quotes: "executeQuotes env st1 qrs = (Inr qres, st2)"
    and rep: "i < length (rs_details res)"
    and ns: "\<not> od_skipQuote (ods ! i)" and fl: "qres ! quoteSlot ods i = Failure err"
    by simp_all
  note r = calculate_reported [OF miss run rep meta quoter scan quotes]
  from r(4) obtain pq where
    "scanOption env info (rq_isCall request) q i (rq_internalOptions request ! i) = Inr (pq, ods ! i)"
    by blast
  from scanOption_Inr(1) [OF this] have idx: "od_index (ods ! i) = i" .
  have det: "rs_details res ! i = failedDetail (ods ! i)"
    using r(3) ns fl by (simp add: detailAt_def)
  have added: "profitAdded qres 0 ods i = 0"
    using ns fl by (simp add: profitAdded_def)
  from r(7) obtain ep where ep: "rs_exerciseParams res = Some ep"
    and alt: "ep_liquidityToExercise ep = replicate (length (rq_internalOptions request)) ''0'' \<or>
              ep_liquidityToExercise ep = liquidityToExerciseOf (rs_details res)"
    by blast
  have ilen: "i < length (rq_internalOptions request)" using rep r(1) r(2) by simp
  have lte: "ep_liquidityToExercise ep ! i = ''0''"
    using alt
  proof
    assume "ep_liquidityToExercise ep = replicate (length (rq_internalOptions request)) ''0''"
    with ilen show ?thesis by simp
  next
    assume "ep_liquidityToExercise ep = liquidityToExerciseOf (rs_details res)"
    with rep det show ?thesis by (simp add: liquidityToExerciseOf_def failedDetail_def)
  qed
  show "rs_details res ! i =
            \<lparr>pr_index = i,
             pr_liquidityAvailable = toString (od_liquidityAvailable (ods ! i)),
             pr_amountLocked = toString (od_amountLocked (ods ! i)),
             pr_quotedAmountOut = ''0'',
             pr_amountToRefill = toString (od_amountToRefill (ods ! i)),
             pr_profit = ''0'', pr_isProfitable = False\<rparr>"
    using det idx by (simp add: failedDetail_def)
  show "profitAdded qres 0 ods i = 0" by (rule added)
  show "rs_totalProfit res = toString (\<Sum>k<length ods. profitAdded qres 0 ods k)" by (rule r(5))
  show "rs_isProfitable res = (0 < (\<Sum>k<length ods. profitAdded qres 0 ods k))" by (rule r(6))
  show "\<exists>ep. rs_exerciseParams res = Some ep \<and> ep_liquidityToExercise ep ! i = ''0''"
    using ep lte by blast
qed

theorem C2_failure_runs_witness:
  "fst (calculateOptionProfitability poolFailureEnv emptyState sampleRequest) =
     \<lparr>rs_tokenId = ''42'', rs_totalProfit = ''0'', rs_isProfitable = False, rs_details = [],
      rs_exerciseParams =
        Some \<lparr>ep_optionId = ''42'', ep_swapper = [], ep_swapData = [],
              ep_liquidityToExercise = [''0'']\<rparr>\<rparr> \<and>
   rs_details (fst (calculateOptionProfitability quoteFailureEnv emptyState twoRequest)) ! 0 =
     failedQuoteDetail 0 \<and>
   (\<exists>ep. rs_exerciseParams (fst (calculateOptionProfitability quoteFailureEnv emptyState twoRequest))
           = Some ep \<and> ep_liquidityToExercise ep ! 0 = ''0'')"
proof -
  have run: "\<And>env request. calculateOptionProfitability env emptyState request =
      (fst (calculateOptionProfitability env emptyState request),
       snd (calculateOptionProfitability env emptyState request))"
    by simp
  have a: "getRpcUrl poolFailureEnv (rq_chainId sampleRequest) = Inr ''http://rpc'' \<and>
          poolMarketInfoCache emptyState
            (generatePoolMarketCacheKey (rq_chainId sampleRequest) (rq_market sampleRequest)
               (rq_pool sampleRequest)) = None \<and>
          (rq_market sampleRequest = rq_pool sampleRequest \<or>
           readPrimePool poolFailureEnv (rq_market sampleRequest) = Inr ''0xpool'') \<and>
          multicallPoolData poolFailureEnv (rq_pool sampleRequest) (rq_market sampleRequest)
            = Inr (samplePoolData\<lparr>pd_token1 := Failure RpcError\<rparr>) \<and>
          anyFailure (samplePoolData\<lparr>pd_token1 := Failure RpcError\<rparr>)"
    by (simp add: sample_rq_sel pool_failure)
  have b: "getPoolMarketInfo quoteFailureEnv emptyState (rq_chainId twoRequest) (rq_market twoRequest)
             (rq_pool twoRequest) = (Inr sampleInfo, sampleMetaState) \<and>
          getQuoterAddress quoteFailureEnv (rq_chainId twoRequest) = Inr ''0xquoter'' \<and>
          scanOptions quoteFailureEnv sampleInfo (rq_isCall twoRequest) ''0xquoter''
             (rq_internalOptions twoRequest) 0 [] []
            = Inr ([sampleQuote, sampleQuote], [sampleData 0, sampleData (Suc 0)]) \<and>
          executeQuotes quoteFailureEnv sampleMetaState [sampleQuote, sampleQuote] =
            (Inr [Failure RpcError, Success (10050, 0, 0, 0)],
             sampleMetaState\<lparr>networkLog :=
                networkLog sampleMetaState @ [MulticallQuotes [sampleQuote, sampleQuote]]\<rparr>) \<and>
          0 < length (rs_details (fst (calculateOptionProfitability quoteFailureEnv emptyState twoRequest))) \<and>
          \<not> od_skipQuote ([sampleData 0, sampleData (Suc 0)] ! 0) \<and>
          [Failure RpcError, Success (10050, 0, 0, 0)] ! quoteSlot [sampleData 0, sampleData (Suc 0)] 0
            = Failure RpcError"
    by (simp add: two_rq_sel two_stages two_run quoteFailureResponse_def sampleData_sel quoteSlot_0
          del: scanOptions.simps)
  from C2_metadata_failure_and_failed_quote [where url = "''http://rpc''" and pp = "''0xpool''"
         and batch = "samplePoolData\<lparr>pd_token1 := Failure RpcError\<rparr>",
         OF sample_miss run [of poolFailureEnv sampleRequest], THEN conjunct1, THEN mp, OF a]
  have 1: "fst (calculateOptionProfitability poolFailureEnv emptyState sampleRequest) =
     \<lparr>rs_tokenId = ''42'', rs_totalProfit = ''0'', rs_isProfitable = False, rs_details = [],
      rs_exerciseParams =
        Some \<lparr>ep_optionId = ''42'', ep_swapper = [], ep_swapData = [],
              ep_liquidityToExercise = [''0'']\<rparr>\<rparr>"
    by (simp add: sample_rq_sel)
  from C2_metadata_failure_and_failed_quote [where info = sampleInfo and ?st1.0 = sampleMetaState and q = "''0xquoter''"
         and qrs = "[sampleQuote, sampleQuote]" and ods = "[sampleData 0, sampleData (Suc 0)]"
         and qres = "[Failure RpcError, Success (10050, 0, 0, 0)]" and i = 0 and err = RpcError,
         OF sample_miss run [of quoteFailureEnv twoRequest], THEN conjunct2, THEN mp, OF b]
  have 2: "rs_details (fst (calculateOptionProfitability quoteFailureEnv emptyState twoRequest)) ! 0 =
     failedQuoteDetail 0 \<and>
   (\<exists>ep. rs_exerciseParams (fst (calculateOptionProfitability quoteFailureEnv emptyState twoRequest))
           = Some ep \<and> ep_liquidityToExercise ep ! 0 = ''0'')"
    by (simp add: sampleData_def failedQuoteDetail_def eval_prims)
  from 1 2 show ?thesis by blast
qed

section \<open>Rounding direction of the range calculator\<close>

lemma sdiv_nonneg: "0 \<le> k \<Longrightarrow> 0 < l \<Longrightarrow> (k::int) sdiv l = k div l"
  by (cases "k = 0") (simp_all add: signed_divide_int_def)

lemma smod_nonneg: "0 \<le> k \<Longrightarrow> 0 < l \<Longrightarrow> (k::int) smod l = k mod l"
  by (cases "k = 0") (simp_all add: signed_modulo_int_def)

lemma mulDivRoundingUp_ceiling:
  assumes "0 \<le> a * b" and "0 < d"
  shows "\<exists>r. mulDivRoundingUp a b d = Inr r \<and> a * b \<le> r * d \<and> r * d < a * b + d \<and> 0 \<le> r"
proof -
  define q where "q = (a * b) div d"
  define m where "m = (a * b) mod d"
  have pm: "a * b = q * d + m" by (simp add: q_def m_def)
  have m: "0 \<le> m" "m < d" using assms(2) by (simp_all add: m_def)
  have q: "0 \<le> q" using assms by (simp add: q_def pos_imp_zdiv_nonneg_iff)
  have val: "mulDivRoundingUp a b d = Inr (if m \<noteq> 0 then q + 1 else q)"
    using assms by (simp add: mulDivRoundingUp_def Let_def sdiv_nonneg smod_nonneg q_def m_def)
  have up: "(q + 1) * d = q * d + d" by (simp add: algebra_simps)
  show ?thesis
  proof (cases "m = 0")
    case True
    with val pm q assms(2) show ?thesis by simp
  next
    case False
    have "a * b \<le> (q + 1) * d" using pm m up by linarith
    moreover have "(q + 1) * d < a * b + d" using pm m up False by linarith
    ultimately show ?thesis using val False q by simp
  qed
qed

lemma amount1_rounds_up:
  assumes "0 < a" "0 < b" "0 < liquidity"
  shows "\<exists>r. getAmount1Delta a b liquidity = Inr r \<and> exactAmount1 a b liquidity \<le> real_of_int r"
proof -
  let ?lo = "if a > b then b else a" and ?hi = "if a > b then a else b"
  have d: "\<bar>real_of_int b - real_of_int a\<bar> = real_of_int (?hi - ?lo)" by simp
  have nn: "0 \<le> liquidity * (?hi - ?lo)" using assms by simp
  from mulDivRoundingUp_ceiling [OF nn, of Q96] obtain r where
    r: "mulDivRoundingUp liquidity (?hi - ?lo) Q96 = Inr r" "liquidity * (?hi - ?lo) \<le> r * Q96"
    by (auto simp: Q96_def)
  from r(2) have "real_of_int (liquidity * (?hi - ?lo)) \<le> real_of_int (r * Q96)"
    by (simp only: of_int_le_iff)
  then have "real_of_int liquidity * real_of_int (?hi - ?lo) / 2 ^ 96 \<le> real_of_int r"
    by (simp add: Q96_def divide_le_eq)
  with r(1) d show ?thesis
    by (simp add: getAmount1Delta_def Let_def exactAmount1_def)
qed

lemma amount0_rounds_up:
  assumes "0 < a" "0 < b" "0 < liquidity"
  shows "\<exists>r. getAmount0Delta a b liquidity = Inr r \<and> exactAmount0 a b liquidity \<le> real_of_int r"
proof -
  let ?lo = "if a > b then b else a" and ?hi = "if a > b then a else b"
  have d: "\<bar>real_of_int b - real_of_int a\<bar> = real_of_int (?hi - ?lo)" by simp
  have ab: "real_of_int a * real_of_int b = real_of_int ?lo * real_of_int ?hi" by simp
  have lo: "0 < ?lo" and hi: "0 < ?hi" using assms by simp_all
  have nn: "0 \<le> (liquidity * 2 ^ 96) * (?hi - ?lo)" using assms by simp
  from mulDivRoundingUp_ceiling [OF nn hi] obtain q where
    q: "mulDivRoundingUp (liquidity * 2 ^ 96) (?hi - ?lo) ?hi = Inr q"
       "(liquidity * 2 ^ 96) * (?hi - ?lo) \<le> q * ?hi" "0 \<le> q"
    by blast
  from q(3) have "0 \<le> q * 1" by simp
  from mulDivRoundingUp_ceiling [OF this lo] obtain r where
    r: "mulDivRoundingUp q 1 ?lo = Inr r" "q * 1 \<le> r * ?lo"
    by blast
  have "(liquidity * 2 ^ 96) * (?hi - ?lo) \<le> r * ?lo * ?hi"
  proof -
    from r(2) hi have "q * ?hi \<le> (r * ?lo) * ?hi"
      by (intro mult_right_mono) simp_all
    with q(2) show ?thesis by linarith
  qed
  then have "real_of_int ((liquidity * 2 ^ 96) * (?hi - ?lo)) \<le> real_of_int (r * ?lo * ?hi)"
    by (simp only: of_int_le_iff)
  then have "real_of_int liquidity * 2 ^ 96 * real_of_int (?hi - ?lo)
      \<le> real_of_int r * (real_of_int ?lo * real_of_int ?hi)"
    by (simp add: mult.assoc)
  moreover have "0 < real_of_int ?lo * real_of_int ?hi" using lo hi by simp
  ultimately have "real_of_int liquidity * 2 ^ 96 * real_of_int (?hi - ?lo) /
      (real_of_int ?lo * real_of_int ?hi) \<le> real_of_int r"
    by (simp only: pos_divide_le_eq)
  then have "exactAmount0 a b liquidity \<le> real_of_int r"
    unfolding exactAmount0_def d ab .
  with q(1) r(1) show ?thesis
    by (simp add: getAmount0Delta_def Let_def)
qed


text \<open>
  Claim C8: for square-root prices \<open>a\<close> and \<open>b\<close> of the two ticks that are positive
  (as those of supported ticks are) and a liquidity above 0, the range calculator returns
  two amounts, each at least the value of its closed-form delta formula in exact
  arithmetic, hence at least that value truncated: both amounts are rounded up.
\<close>

theorem C8_amounts_round_up:
  assumes ticks: "sqrtRatioOfTick env tickLower = Inr a" "sqrtRatioOfTick env tickUpper = Inr b"
    and pos: "0 < a" "0 < b" and liq: "0 < liquidity"
  shows "\<exists>amount0 amount1.
           getAmount0Delta a b liquidity = Inr amount0 \<and>
           getAmount1Delta a b liquidity = Inr amount1 \<and>
           rangeAmounts env True tickLower tickUpper liquidity = Inr (amount0, amount1) \<and>
           rangeAmounts env False tickLower tickUpper liquidity = Inr (amount1, amount0) \<and>
           exactAmount0 a b liquidity \<le> real_of_int amount0 \<and>
           exactAmount1 a b liquidity \<le> real_of_int amount1 \<and>
           \<lfloor>exactAmount0 a b liquidity\<rfloor> \<le> amount0 \<and>
           \<lfloor>exactAmount1 a b liquidity\<rfloor> \<le> amount1"
proof -
  from amount0_rounds_up [OF pos liq] obtain r0 where
    r0: "getAmount0Delta a b liquidity = Inr r0" "exactAmount0 a b liquidity \<le> real_of_int r0"
    by blast
  from amount1_rounds_up [OF pos liq] obtain r1 where
    r1: "getAmount1Delta a b liquidity = Inr r1" "exactAmount1 a b liquidity \<le> real_of_int r1"
    by blast
  have f0: "\<lfloor>exactAmount0 a b liquidity\<rfloor> \<le> r0" using r0(2) by (simp add: floor_le_iff)
  have f1: "\<lfloor>exactAmount1 a b liquidity\<rfloor> \<le> r1" using r1(2) by (simp add: floor_le_iff)
  have "rangeAmounts env True tickLower tickUpper liquidity = Inr (r0, r1)"
    "rangeAmounts env False tickLower tickUpper liquidity = Inr (r1, r0)"
    using ticks r0(1) r1(1) by (simp_all add: rangeAmounts_def)
  with r0 r1 f0 f1 show ?thesis by blast
qed


theorem C8_sample_range_witness:
  "rangeAmounts sampleEnv True ''-100'' ''100'' 1000000 = Inr (10000, 10000) \<and>
   \<lfloor>exactAmount0 78833030112140176575862854579 79625275426524748796330556128 1000000\<rfloor>
     \<le> 10000 \<and>
   \<lfloor>exactAmount1 78833030112140176575862854579 79625275426524748796330556128 1000000\<rfloor>
     \<le> 10000"
proof -
  have t: "sqrtRatioOfTick sampleEnv ''-100'' = Inr 78833030112140176575862854579"
    "sqrtRatioOfTick sampleEnv ''100'' = Inr 79625275426524748796330556128"
    by (simp_all add: sqrtRatioOfTick_def sampleEnv_def sampleSqrtRatio_def eval_prims)
  have p: "(0::int) < 78833030112140176575862854579"
    "(0::int) < 79625275426524748796330556128" "(0::int) < 1000000"
    by simp_all
  from C8_amounts_round_up [OF t p] sample_range show ?thesis
    by auto
qed

section \<open>The control loop\<close>

lemma runPass_isRunning: "isRunning (runPass p eng) = (isRunning eng \<and> \<not> stopCalled p)"
  by (simp add: runPass_def stop_def Let_def split: option.splits)

lemma runPass_passes: "passes (runPass p eng) = passes eng + 1"
  by (simp add: runPass_def stop_def Let_def split: option.splits)

lemma runPass_logger_mono: "set (logger eng) \<subseteq> set (logger (runPass p eng))"
  by (auto simp: runPass_def stop_def Let_def split: option.splits)

lemma runPass_logs_error:
  "thrown p = Some err \<Longrightarrow> LogError ''Error in main loop:'' err \<in> set (logger (runPass p eng))"
  by (simp add: runPass_def Let_def)

lemma mainLoop_stopped: "\<not> isRunning eng \<Longrightarrow> mainLoop schedule n eng = Some eng"
  by (subst mainLoop.simps) simp

lemma mainLoop_running:
  "isRunning eng \<Longrightarrow> mainLoop schedule n eng = mainLoop schedule (n + 1) (runPass (schedule n) eng)"
  by (subst mainLoop.simps) simp

lemma mainLoop_never_exits_aux:
  assumes exits: "mainLoop schedule n eng = Some y"
  shows "\<not> (isRunning eng \<and> (\<forall>k\<ge>n. \<not> stopCalled (schedule k)))"
proof (rule mainLoop.raw_induct
    [where P = "\<lambda>schedule n eng y. \<not> (isRunning eng \<and> (\<forall>k\<ge>n. \<not> stopCalled (schedule k)))",
     OF _ exits])
  fix loop :: "(nat \<Rightarrow> pass) \<Rightarrow> nat \<Rightarrow> engineState \<Rightarrow> engineState option"
  fix schedule n eng y
  assume IH: "\<And>s m e z. loop s m e = Some z \<Longrightarrow>
                \<not> (isRunning e \<and> (\<forall>k\<ge>m. \<not> stopCalled (s k)))"
    and body: "(if isRunning eng then loop schedule (n + 1) (runPass (schedule n) eng)
                else Some eng) = Some y"
  show "\<not> (isRunning eng \<and> (\<forall>k\<ge>n. \<not> stopCalled (schedule k)))"
  proof
    assume a: "isRunning eng \<and> (\<forall>k\<ge>n. \<not> stopCalled (schedule k))"
    with body have call: "loop schedule (n + 1) (runPass (schedule n) eng) = Some y" by simp
    from a have r: "isRunning (runPass (schedule n) eng)"
      unfolding runPass_isRunning by blast
    have "\<forall>k\<ge>n + 1. \<not> stopCalled (schedule k)"
    proof (intro allI impI)
      fix k assume "n + 1 \<le> k"
      then have "n \<le> k" by arith
      with a show "\<not> stopCalled (schedule k)" by blast
    qed
    with r have "isRunning (runPass (schedule n) eng) \<and>
        (\<forall>k\<ge>n + 1. \<not> stopCalled (schedule k))" by (rule conjI)
    with IH [OF call] show False by (rule notE)
  qed
qed

lemma mainLoop_never_exits:
  "isRunning eng \<Longrightarrow> \<forall>k\<ge>n. \<not> stopCalled (schedule k) \<Longrightarrow> mainLoop schedule n eng = None"
proof (cases "mainLoop schedule n eng")
  case None
  then show ?thesis .
next
  case (Some y)
  assume "isRunning eng" "\<forall>k\<ge>n. \<not> stopCalled (schedule k)"
  then have "isRunning eng \<and> (\<forall>k\<ge>n. \<not> stopCalled (schedule k))" by (rule conjI)
  with mainLoop_never_exits_aux [OF Some] show ?thesis by (rule notE)
qed

lemma mainLoop_exits_on_stop:
  "isRunning eng \<Longrightarrow> stopCalled (schedule (n + k)) \<Longrightarrow> \<forall>j<k. \<not> stopCalled (schedule (n + j)) \<Longrightarrow>
     \<exists>eng'. mainLoop schedule n eng = Some eng' \<and> \<not> isRunning eng' \<and>
        passes eng' = passes eng + k + 1 \<and> set (logger eng) \<subseteq> set (logger eng') \<and>
        (\<forall>j\<le>k. \<forall>err. thrown (schedule (n + j)) = Some err \<longrightarrow>
            LogError ''Error in main loop:'' err \<in> set (logger eng'))"
proof (induction k arbitrary: n eng)
  case 0
  let ?e = "runPass (schedule n) eng"
  from 0 have "\<not> isRunning ?e" by (simp add: runPass_isRunning)
  with 0 have "mainLoop schedule n eng = Some ?e"
    by (simp add: mainLoop_running mainLoop_stopped)
  with \<open>\<not> isRunning ?e\<close> show ?case
    using runPass_logger_mono [of eng "schedule n"]
    by (auto simp: runPass_passes runPass_logs_error)
next
  case (Suc k)
  let ?e = "runPass (schedule n) eng"
  from Suc.prems have run: "isRunning ?e"
    by (simp add: runPass_isRunning) (metis add.right_neutral zero_less_Suc)
  from Suc.prems have st: "stopCalled (schedule (n + 1 + k))" by simp
  from Suc.prems have no: "\<forall>j<k. \<not> stopCalled (schedule (n + 1 + j))"
    by (metis Suc_less_eq add_Suc_right add_Suc_shift plus_1_eq_Suc add.commute)
  from Suc.IH [OF run st no] obtain eng' where
    e: "mainLoop schedule (n + 1) ?e = Some eng'" "\<not> isRunning eng'"
       "passes eng' = passes ?e + k + 1" "set (logger ?e) \<subseteq> set (logger eng')"
       "\<forall>j\<le>k. \<forall>err. thrown (schedule (n + 1 + j)) = Some err \<longrightarrow>
            LogError ''Error in main loop:'' err \<in> set (logger eng')"
    by blast
  have 1: "mainLoop schedule n eng = Some eng'"
    using Suc.prems(1) e(1) by (simp add: mainLoop_running)
  have 3: "passes eng' = passes eng + Suc k + 1" using e(3) by (simp add: runPass_passes)
  have 4: "set (logger eng) \<subseteq> set (logger eng')"
    using e(4) runPass_logger_mono [of eng "schedule n"] by blast
  have 5: "\<forall>j\<le>Suc k. \<forall>err. thrown (schedule (n + j)) = Some err \<longrightarrow>
            LogError ''Error in main loop:'' err \<in> set (logger eng')"
  proof (intro allI impI)
    fix j err assume j: "j \<le> Suc k" and t: "thrown (schedule (n + j)) = Some err"
    show "LogError ''Error in main loop:'' err \<in> set (logger eng')"
    proof (cases j)
      case 0
      with t have "LogError ''Error in main loop:'' err \<in> set (logger ?e)"
        by (simp add: runPass_logs_error)
      with e(4) show ?thesis by blast
    next
      case (Suc i)
      with j t e(5) show ?thesis by simp
    qed
  qed
  from 1 e(2) 3 4 5 show ?case by blast
qed


text \<open>
  Claim C9: \<^verbatim>\<open>start()\<close> on an engine that is already running returns at once with one
  warning added and no pass run. Started on a stopped engine, the loop never exits when
  \<^verbatim>\<open>stop()\<close> is never called, whatever the passes throw; when \<^verbatim>\<open>stop()\<close> is first
  called during pass \<open>k\<close>, the loop exits after exactly \<open>k + 1\<close> passes with the running
  flag false, and every exception thrown by one of those passes has been logged while the
  loop went on.
\<close>

theorem C9_loop_ends_only_by_stop:
  "(isRunning eng \<longrightarrow>
      start schedule eng =
        Some (eng\<lparr>logger := logger eng @ [LogWarn ''Settlement engine is already running'']\<rparr>)) \<and>
   (\<not> isRunning eng \<and> (\<forall>k. \<not> stopCalled (schedule k)) \<longrightarrow> start schedule eng = None) \<and>
   (\<not> isRunning eng \<and> stopCalled (schedule k) \<and> (\<forall>j<k. \<not> stopCalled (schedule j)) \<longrightarrow>
      (\<exists>eng'. start schedule eng = Some eng' \<and> \<not> isRunning eng' \<and>
         passes eng' = passes eng + k + 1 \<and>
         (\<forall>j\<le>k. \<forall>err. thrown (schedule j) = Some err \<longrightarrow>
            LogError ''Error in main loop:'' err \<in> set (logger eng'))))"
proof (intro conjI impI)
  assume "isRunning eng"
  then show "start schedule eng =
        Some (eng\<lparr>logger := logger eng @ [LogWarn ''Settlement engine is already running'']\<rparr>)"
    by (simp add: start_def)
next
  let ?e0 = "eng\<lparr>isRunning := True, logger := logger eng @ [LogInfo ''Starting settlement engine''],
                     cacheCleanupInterval := True\<rparr>"
  assume a: "\<not> isRunning eng \<and> (\<forall>k. \<not> stopCalled (schedule k))"
  then have "mainLoop schedule 0 ?e0 = None"
    by (intro mainLoop_never_exits) simp_all
  with a show "start schedule eng = None" by (simp add: start_def)
next
  let ?e0 = "eng\<lparr>isRunning := True, logger := logger eng @ [LogInfo ''Starting settlement engine''],
                     cacheCleanupInterval := True\<rparr>"
  assume a: "\<not> isRunning eng \<and> stopCalled (schedule k) \<and> (\<forall>j<k. \<not> stopCalled (schedule j))"
  have "\<exists>eng'. mainLoop schedule 0 ?e0 = Some eng' \<and> \<not> isRunning eng' \<and>
        passes eng' = passes ?e0 + k + 1 \<and> set (logger ?e0) \<subseteq> set (logger eng') \<and>
        (\<forall>j\<le>k. \<forall>err. thrown (schedule (0 + j)) = Some err \<longrightarrow>
            LogError ''Error in main loop:'' err \<in> set (logger eng'))"
    using a by (intro mainLoop_exits_on_stop) simp_all
  then obtain eng' where
    e: "mainLoop schedule 0 ?e0 = Some eng'" "\<not> isRunning eng'" "passes eng' = passes eng + k + 1"
       "\<forall>j\<le>k. \<forall>err. thrown (schedule j) = Some err \<longrightarrow>
            LogError ''Error in main loop:'' err \<in> set (logger eng')"
    by auto
  from a e(1) have "start schedule eng = Some (eng'\<lparr>cacheCleanupInterval := False\<rparr>)"
    by (simp add: start_def)
  with e show "\<exists>eng'. start schedule eng = Some eng' \<and> \<not> isRunning eng' \<and>
         passes eng' = passes eng + k + 1 \<and>
         (\<forall>j\<le>k. \<forall>err. thrown (schedule j) = Some err \<longrightarrow>
            LogError ''Error in main loop:'' err \<in> set (logger eng'))"
    by simp
qed


theorem C9_schedules_witness:
  "start sampleSchedule (stoppedEngine\<lparr>isRunning := True\<rparr>) =
     Some (stoppedEngine\<lparr>isRunning := True,
             logger := [LogWarn ''Settlement engine is already running'']\<rparr>) \<and>
   start failingSchedule stoppedEngine = None \<and>
   (\<exists>eng'. start sampleSchedule stoppedEngine = Some eng' \<and> \<not> isRunning eng' \<and>
      passes eng' = 3 \<and> LogError ''Error in main loop:'' RpcError \<in> set (logger eng'))"
proof -
  have 1: "isRunning (stoppedEngine\<lparr>isRunning := True\<rparr>)" by simp
  have 2: "\<not> isRunning stoppedEngine \<and> (\<forall>k. \<not> stopCalled (failingSchedule k))"
    by (simp add: stoppedEngine_def failingSchedule_def)
  have 3: "\<not> isRunning stoppedEngine \<and> stopCalled (sampleSchedule 2) \<and>
      (\<forall>j<2. \<not> stopCalled (sampleSchedule j))"
    by (simp add: stoppedEngine_def sampleSchedule_def)
  from C9_loop_ends_only_by_stop [where eng = "stoppedEngine\<lparr>isRunning := True\<rparr>" and schedule = sampleSchedule,
      THEN conjunct1, THEN mp, OF 1]
  have a: "start sampleSchedule (stoppedEngine\<lparr>isRunning := True\<rparr>) =
     Some (stoppedEngine\<lparr>isRunning := True,
             logger := [LogWarn ''Settlement engine is already running'']\<rparr>)"
    by (simp add: stoppedEngine_def)
  from C9_loop_ends_only_by_stop [where eng = stoppedEngine and schedule = failingSchedule,
      THEN conjunct2, THEN conjunct1, THEN mp, OF 2]
  have b: "start failingSchedule stoppedEngine = None" .
  from C9_loop_ends_only_by_stop [where eng = stoppedEngine and schedule = sampleSchedule and k = 2,
      THEN conjunct2, THEN conjunct2, THEN mp, OF 3]
  obtain eng' where e: "start sampleSchedule stoppedEngine = Some eng'" "\<not> isRunning eng'"
    "passes eng' = passes stoppedEngine + 2 + 1"
    "\<forall>j\<le>2. \<forall>err. thrown (sampleSchedule j) = Some err \<longrightarrow>
        LogError ''Error in main loop:'' err \<in> set (logger eng')"
    by blast
  from e(4) have "LogError ''Error in main loop:'' RpcError \<in> set (logger eng')"
    by (auto simp: sampleSchedule_def)
  with e(1-3) have c: "\<exists>eng'. start sampleSchedule stoppedEngine = Some eng' \<and> \<not> isRunning eng' \<and>
      passes eng' = 3 \<and> LogError ''Error in main loop:'' RpcError \<in> set (logger eng')"
    by (auto simp: stoppedEngine_def)
  from a b c show ?thesis by blast
qed

end
